theory Spec2Isabelle
  imports Complex_Main
begin

section \<open>Level Devil: the per-frame simulation engine\<close>

text \<open>
  A shallow embedding of \<^verbatim>\<open>src/components/GameCanvas.tsx\<close> (the frame step
  \<^verbatim>\<open>update\<close>, the mechanics table \<^verbatim>\<open>updateLevelMechanics\<close>, the death
  handler), of the level data of \<^verbatim>\<open>src/constants.ts\<close> and of the taunt service
  \<^verbatim>\<open>generateTaunt\<close>.

  Conventions of the embedding.
  \<^item> JavaScript numbers are modelled as real numbers: comparisons, sums and
    products are exact. An absent or NaN numeric property is \<open>None\<close>.
  \<^item> The mutable refs of the component (player, entity list, frame counter) are the
    fields of the record \<open>Game\<close>; the callbacks \<^verbatim>\<open>onDie\<close>, \<^verbatim>\<open>onWin\<close> and the
    cosmetic effects \<^verbatim>\<open>spawnParticles\<close>, \<^verbatim>\<open>playExplosionSound\<close> are logged in
    that record, one entry per call.
  \<^item> The property bag of an entity is a record of the keys the engine reads. A missing
    bag and an empty bag behave alike in every path of the source (each access is
    guarded by \<^verbatim>\<open>?.\<close> or preceded by \<^verbatim>\<open>if (!e.properties) e.properties = {}\<close>),
    so both are the record of defaults. The keys \<^verbatim>\<open>displayX\<close>, \<^verbatim>\<open>opacity\<close>,
    \<^verbatim>\<open>ghost\<close> and \<^verbatim>\<open>active\<close> are read by the renderer only and are left out,
    with the random jitter and the sine that compute the first two.
    The values of the keys have the types that the campaign levels and the editor
    give them: flags are booleans, timers and velocities are numbers.
  \<^item> Particle ageing and the eye-blink timer (steps 0 and 0.5 of \<^verbatim>\<open>update\<close>) touch
    only render state and are left out, as are the fields that the engine never reads
    (\<^verbatim>\<open>description\<close> of a level; \<^verbatim>\<open>color\<close>, \<^verbatim>\<open>vx\<close>, \<^verbatim>\<open>vy\<close> of an entity).
\<close>

subsection \<open>Data model (types.ts)\<close>

record Vector2 =
  vec_x :: real
  vec_y :: real

record Rect =
  rect_x :: real
  rect_y :: real
  rect_w :: real
  rect_h :: real

datatype EntityType = WALL | SPIKE | GOAL | TRIGGER | DECORATION | MOVING_PLATFORM

datatype GameStatus = MENU | PLAYING | DEAD | WIN | LEVEL_COMPLETE | EDITOR

record Properties =
  trap :: bool
  fake :: bool
  triggered :: bool
  timer :: "real option"
  fallingStrategy :: "string option"
  shaking :: bool
  shakeTimer :: "real option"
  falling :: bool
  prop_vy :: "real option"

record Entity = Rect +
  ent_id :: string
  ent_type :: EntityType
  visible :: bool
  collidable :: bool
  properties :: Properties

record LevelData =
  level_id :: int
  level_name :: string
  startPos :: Vector2
  level_entities :: "Entity list"
  width :: real
  height :: real

record PlayerState =
  pos :: Vector2
  vel :: Vector2
  isGrounded :: bool
  dead :: bool
  faceRight :: bool

text \<open>The held keys sampled by a frame: right is ArrowRight or KeyD, left is ArrowLeft
  or KeyA, jump is Space, ArrowUp or KeyW.\<close>

record Keys =
  key_right :: bool
  key_left :: bool
  key_jump :: bool

record Game =
  player :: PlayerState
  entities :: "Entity list"
  frameCount :: nat
  particleBursts :: "(real \<times> real) list"
  explosionSounds :: nat
  onDie_calls :: "(Vector2 \<times> string) list"
  onWin_calls :: nat

subsection \<open>Constants (constants.ts)\<close>

definition GRAVITY :: real where "GRAVITY = 0.6"
definition JUMP_FORCE :: real where "JUMP_FORCE = - 11"
definition MOVE_SPEED :: real where "MOVE_SPEED = 5"
definition FRICTION :: real where "FRICTION = 0.8"
definition MAX_FALL_SPEED :: real where "MAX_FALL_SPEED = 15"
definition PLAYER_SIZE :: real where "PLAYER_SIZE = 30"
definition TILE_SIZE :: real where "TILE_SIZE = 40"

lemmas consts_defs =
  GRAVITY_def JUMP_FORCE_def MOVE_SPEED_def FRICTION_def MAX_FALL_SPEED_def
  PLAYER_SIZE_def TILE_SIZE_def

definition noProperties :: Properties where
  "noProperties = \<lparr> trap = False, fake = False, triggered = False, timer = None,
     fallingStrategy = None, shaking = False, shakeTimer = None, falling = False,
     prop_vy = None \<rparr>"

definition createRect :: "real \<Rightarrow> real \<Rightarrow> real \<Rightarrow> real \<Rightarrow> EntityType \<Rightarrow> string \<Rightarrow> Entity" where
  "createRect cx cy cw ch ty i =
     \<lparr> rect_x = cx * TILE_SIZE, rect_y = cy * TILE_SIZE,
       rect_w = cw * TILE_SIZE, rect_h = ch * TILE_SIZE,
       ent_id = i, ent_type = ty, visible = True, collidable = True,
       properties = noProperties \<rparr>"

subsection \<open>Collision test and the death handler\<close>

definition checkCollision :: "'a Rect_scheme \<Rightarrow> 'b Rect_scheme \<Rightarrow> bool" where
  "checkCollision rect1 rect2 \<longleftrightarrow>
     rect_x rect1 < rect_x rect2 + rect_w rect2 \<and>
     rect_x rect1 + rect_w rect1 > rect_x rect2 \<and>
     rect_y rect1 < rect_y rect2 + rect_h rect2 \<and>
     rect_y rect1 + rect_h rect1 > rect_y rect2"

definition playerRect :: "PlayerState \<Rightarrow> Rect" where
  "playerRect p =
     \<lparr> rect_x = vec_x (pos p), rect_y = vec_y (pos p),
       rect_w = PLAYER_SIZE, rect_h = PLAYER_SIZE \<rparr>"

definition spawnParticles :: "real \<Rightarrow> real \<Rightarrow> Game \<Rightarrow> Game" where
  "spawnParticles px py g = g\<lparr> particleBursts := particleBursts g @ [(px, py)] \<rparr>"

definition playExplosionSound :: "Game \<Rightarrow> Game" where
  "playExplosionSound g = g\<lparr> explosionSounds := Suc (explosionSounds g) \<rparr>"

definition onDie :: "Vector2 \<Rightarrow> string \<Rightarrow> Game \<Rightarrow> Game" where
  "onDie p cause g = g\<lparr> onDie_calls := onDie_calls g @ [(p, cause)] \<rparr>"

definition onWin :: "Game \<Rightarrow> Game" where
  "onWin g = g\<lparr> onWin_calls := Suc (onWin_calls g) \<rparr>"

definition handleDeath :: "string \<Rightarrow> Game \<Rightarrow> Game" where
  "handleDeath cause g =
     (if dead (player g) then g
      else
        let g1 = g\<lparr> player := (player g)\<lparr> dead := True \<rparr> \<rparr>;
            g2 = spawnParticles (vec_x (pos (player g1))) (vec_y (pos (player g1))) g1;
            g3 = playExplosionSound g2
        in onDie (pos (player g3)) cause g3)"

subsection \<open>Helpers for the entity list\<close>

text \<open>\<^verbatim>\<open>entities.find(P)\<close> followed by a mutation of the entity found: the first
  entity that satisfies the predicate is replaced, the others are kept.\<close>

fun updateFirst :: "('a \<Rightarrow> bool) \<Rightarrow> ('a \<Rightarrow> 'a) \<Rightarrow> 'a list \<Rightarrow> 'a list" where
  "updateFirst P f [] = []"
| "updateFirst P f (e # es) = (if P e then f e # es else e # updateFirst P f es)"

text \<open>\<^verbatim>\<open>entities.filter(P).forEach(f)\<close> where \<open>f\<close> mutates the entity it is given.\<close>

definition forEachWhere :: "('a \<Rightarrow> bool) \<Rightarrow> ('a \<Rightarrow> 'a) \<Rightarrow> 'a list \<Rightarrow> 'a list" where
  "forEachWhere P f es = map (\<lambda>e. if P e then f e else e) es"

fun startsWith :: "string \<Rightarrow> string \<Rightarrow> bool" where
  "startsWith s [] = True"
| "startsWith [] (c # cs) = False"
| "startsWith (a # as) (c # cs) = (a = c \<and> startsWith as cs)"

fun includesStr :: "string \<Rightarrow> string \<Rightarrow> bool" where
  "includesStr [] sub = (sub = [])"
| "includesStr (a # as) sub = (startsWith (a # as) sub \<or> includesStr as sub)"

text \<open>\<^verbatim>\<open>t += 1\<close> and \<^verbatim>\<open>t > n\<close> on a numeric property that may be absent:
  \<^verbatim>\<open>undefined + 1\<close> is NaN and every comparison with NaN is false.\<close>

definition plusOne :: "real option \<Rightarrow> real option" where
  "plusOne t = map_option (\<lambda>n. n + 1) t"

definition exceeds :: "real option \<Rightarrow> real \<Rightarrow> bool" where
  "exceeds t n = (case t of None \<Rightarrow> False | Some v \<Rightarrow> v > n)"

subsection \<open>Generic mechanics\<close>

definition trapRect :: "Entity \<Rightarrow> Rect" where
  "trapRect t =
     \<lparr> rect_x = rect_x t, rect_y = rect_y t - 5, rect_w = rect_w t, rect_h = rect_h t \<rparr>"

definition startCountdown :: "Entity \<Rightarrow> Entity" where
  "startCountdown t =
     (if \<not> triggered (properties t)
      then t\<lparr> properties := (properties t)\<lparr> triggered := True, timer := Some 0 \<rparr> \<rparr>
      else t)"

definition countdown :: "Entity \<Rightarrow> Entity" where
  "countdown t =
     (if triggered (properties t) then
        let t1 = t\<lparr> properties := (properties t)\<lparr> timer := plusOne (timer (properties t)) \<rparr> \<rparr>
        in if exceeds (timer (properties t1)) 20
           then t1\<lparr> visible := False, collidable := False \<rparr>
           else t1
      else t)"

definition genericTrap :: "PlayerState \<Rightarrow> Entity \<Rightarrow> Entity" where
  "genericTrap p t =
     countdown
       (if visible t \<and> collidable t then
          (if checkCollision (playerRect p) (trapRect t) \<and> isGrounded p
           then startCountdown t else t)
        else t)"

definition genericFallingSpike :: "PlayerState \<Rightarrow> Entity \<Rightarrow> Entity" where
  "genericFallingSpike p spike =
     (if \<not> triggered (properties spike) then
        let xDist = \<bar>(rect_x spike + rect_w spike / 2) - (vec_x (pos p) + PLAYER_SIZE / 2)\<bar>;
            isUnder = xDist < PLAYER_SIZE;
            isBelow = vec_y (pos p) > rect_y spike
        in if isUnder \<and> isBelow
           then spike\<lparr> properties := (properties spike)\<lparr> triggered := True \<rparr> \<rparr>
           else spike
      else spike\<lparr> rect_y := rect_y spike + 9 \<rparr>)"

definition genericMechanics :: "PlayerState \<Rightarrow> Entity list \<Rightarrow> Entity list" where
  "genericMechanics p es =
     forEachWhere (\<lambda>e. fallingStrategy (properties e) = Some ''proximity'') (genericFallingSpike p)
       (forEachWhere (\<lambda>e. trap (properties e)) (genericTrap p) es)"

subsection \<open>Campaign mechanics, by level id\<close>

definition level1 :: "PlayerState \<Rightarrow> Entity list \<Rightarrow> Entity list" where
  "level1 p es =
     (if vec_x (pos p) > 7 * TILE_SIZE \<and> vec_y (pos p) < 8 * TILE_SIZE
      then updateFirst (\<lambda>e. ent_id e = ''troll-block'') (\<lambda>block. block\<lparr> visible := True \<rparr>) es
      else es)"

definition level2 :: "PlayerState \<Rightarrow> Entity list \<Rightarrow> Entity list" where
  "level2 p es =
     (if vec_x (pos p) > 8 * TILE_SIZE
      then updateFirst (\<lambda>e. ent_id e = ''goal'')
             (\<lambda>goal. if rect_x goal < 18 * TILE_SIZE then goal\<lparr> rect_x := rect_x goal + 8 \<rparr> else goal) es
      else es)"

definition level3Spike :: "PlayerState \<Rightarrow> Entity \<Rightarrow> Entity" where
  "level3Spike p spike =
     (let ps = properties spike;
          ps1 = (if \<not> falling ps \<and> \<not> shaking ps
                 then (if \<bar>vec_x (pos p) - rect_x spike\<bar> < 2.5 * TILE_SIZE
                       then ps\<lparr> shaking := True, shakeTimer := Some 0 \<rparr> else ps)
                 else ps);
          ps2 = (if shaking ps1
                 then (let ps' = ps1\<lparr> shakeTimer := plusOne (shakeTimer ps1) \<rparr>
                       in if exceeds (shakeTimer ps') 30
                          then ps'\<lparr> shaking := False, falling := True \<rparr> else ps')
                 else ps1)
      in if falling ps2
         then spike\<lparr> rect_y := rect_y spike + 9, properties := ps2 \<rparr>
         else spike\<lparr> properties := ps2 \<rparr>)"

definition level3 :: "PlayerState \<Rightarrow> Entity list \<Rightarrow> Entity list" where
  "level3 p es = forEachWhere (\<lambda>e. includesStr (ent_id e) ''fall-spike'') (level3Spike p) es"

definition level4Trap :: "PlayerState \<Rightarrow> Entity \<Rightarrow> Entity" where
  "level4Trap p t =
     countdown
       (if checkCollision (playerRect p) (trapRect t) \<and> isGrounded p
        then startCountdown t else t)"

definition level4 :: "PlayerState \<Rightarrow> Entity list \<Rightarrow> Entity list" where
  "level4 p es = updateFirst (\<lambda>e. ent_id e = ''trap-plat'') (level4Trap p) es"

definition level7Pillar :: "PlayerState \<Rightarrow> Entity \<Rightarrow> Entity" where
  "level7Pillar p pillar =
     (let p1 = (if \<not> triggered (properties pillar) \<and> vec_x (pos p) > 5 * TILE_SIZE
                then pillar\<lparr> properties := (properties pillar)\<lparr> triggered := True \<rparr> \<rparr>
                else pillar)
      in if triggered (properties p1) then
           let v0 = (case prop_vy (properties p1) of None \<Rightarrow> 0 | Some v \<Rightarrow> v);
               v1 = v0 + 0.8;
               p2 = p1\<lparr> rect_y := rect_y p1 + v1,
                        properties := (properties p1)\<lparr> prop_vy := Some v1 \<rparr> \<rparr>;
               floorY = 12 * TILE_SIZE
           in if rect_y p2 + rect_h p2 \<ge> floorY
              then p2\<lparr> rect_y := floorY - rect_h p2,
                       properties := (properties p2)\<lparr> prop_vy := Some 0 \<rparr> \<rparr>
              else p2
         else p1)"

definition level7 :: "PlayerState \<Rightarrow> Entity list \<Rightarrow> Entity list" where
  "level7 p es = updateFirst (\<lambda>e. ent_id e = ''falling-pillar'') (level7Pillar p) es"

definition level8 :: "Entity list \<Rightarrow> Entity list" where
  "level8 es =
     updateFirst (\<lambda>e. ent_id e = ''crushing-ceiling'')
       (\<lambda>ceiling. ceiling\<lparr> rect_y := rect_y ceiling + 0.6 \<rparr>) es"

definition level9Shark :: "PlayerState \<Rightarrow> Entity \<Rightarrow> Entity" where
  "level9Shark p shark =
     (let s1 = shark\<lparr> rect_x := vec_x (pos p) + (PLAYER_SIZE - rect_w shark) / 2 \<rparr>;
          isMoving = \<bar>vec_x (vel p)\<bar> > 0.1;
          floorY = 12 * TILE_SIZE
      in if \<not> isMoving
         then s1\<lparr> rect_y := max (floorY - 30) (rect_y s1 - 5) \<rparr>
         else s1\<lparr> rect_y := min (floorY + 10) (rect_y s1 + 2) \<rparr>)"

definition level9 :: "PlayerState \<Rightarrow> Entity list \<Rightarrow> Entity list" where
  "level9 p es = updateFirst (\<lambda>e. ent_id e = ''shark-spike'') (level9Shark p) es"

definition isStair :: "Entity \<Rightarrow> bool" where
  "isStair e \<longleftrightarrow> ent_id e \<in> set [''s1'', ''s2'', ''s3'', ''s4'']"

definition level10Reveal :: "Entity list \<Rightarrow> Entity list" where
  "level10Reveal es =
     forEachWhere isStair (\<lambda>e. e\<lparr> visible := True \<rparr>)
       (updateFirst (\<lambda>e. ent_id e = ''real-goal'')
          (\<lambda>realGoal. realGoal\<lparr> visible := True, collidable := True \<rparr>)
          (updateFirst (\<lambda>e. ent_id e = ''fake-goal'')
             (\<lambda>fakeGoal. fakeGoal\<lparr> visible := False, collidable := False \<rparr>) es))"

definition level10 :: "Game \<Rightarrow> Game" where
  "level10 g =
     (case find (\<lambda>e. ent_id e = ''fake-goal'') (entities g) of
        None \<Rightarrow> g
      | Some fakeGoal \<Rightarrow>
          if visible fakeGoal \<and> checkCollision (playerRect (player g)) fakeGoal
          then spawnParticles (rect_x fakeGoal) (rect_y fakeGoal)
                 (g\<lparr> entities := level10Reveal (entities g) \<rparr>)
          else g)"

text \<open>The mechanics table: the two generic rules, then the rule of the level id. The
  rules of levels 5 (opacity pulse) and 3 (display jitter) write render-only keys; of
  level 5 nothing else remains.\<close>

definition campaignMechanics :: "int \<Rightarrow> PlayerState \<Rightarrow> Entity list \<Rightarrow> Entity list" where
  "campaignMechanics levelId p es =
     (if levelId = 1 then level1 p es
      else if levelId = 2 then level2 p es
      else if levelId = 3 then level3 p es
      else if levelId = 4 then level4 p es
      else if levelId = 7 then level7 p es
      else if levelId = 8 then level8 es
      else if levelId = 9 then level9 p es
      else es)"

definition updateLevelMechanics :: "int \<Rightarrow> Game \<Rightarrow> Game" where
  "updateLevelMechanics levelId g =
     (let g1 = g\<lparr> entities :=
                  campaignMechanics levelId (player g) (genericMechanics (player g) (entities g)) \<rparr>
      in if levelId = 10 then level10 g1 else g1)"

subsection \<open>The frame step\<close>

definition applyPhysics :: "Keys \<Rightarrow> PlayerState \<Rightarrow> PlayerState" where
  "applyPhysics keys p =
     (let p1 = (if key_right keys
                then p\<lparr> vel := (vel p)\<lparr> vec_x := MOVE_SPEED \<rparr>, faceRight := True \<rparr>
                else if key_left keys
                then p\<lparr> vel := (vel p)\<lparr> vec_x := - MOVE_SPEED \<rparr>, faceRight := False \<rparr>
                else let v = vec_x (vel p) * FRICTION
                     in p\<lparr> vel := (vel p)\<lparr> vec_x := (if \<bar>v\<bar> < 0.1 then 0 else v) \<rparr> \<rparr>);
          p2 = (if key_jump keys \<and> isGrounded p1
                then p1\<lparr> vel := (vel p1)\<lparr> vec_y := JUMP_FORCE \<rparr>, isGrounded := False \<rparr>
                else p1);
          v = vec_y (vel p2) + GRAVITY
      in p2\<lparr> vel := (vel p2)\<lparr> vec_y := (if v > MAX_FALL_SPEED then MAX_FALL_SPEED else v) \<rparr> \<rparr>)"

text \<open>Step 3, first half: the horizontal velocity is applied and the position clamped
  to the level.\<close>

definition moveX :: "LevelData \<Rightarrow> PlayerState \<Rightarrow> PlayerState" where
  "moveX level p =
     (let x1 = vec_x (pos p) + vec_x (vel p);
          x2 = (if x1 < 0 then 0 else x1);
          x3 = (if x2 > width level - PLAYER_SIZE then width level - PLAYER_SIZE else x2)
      in p\<lparr> pos := (pos p)\<lparr> vec_x := x3 \<rparr> \<rparr>)"

text \<open>Step 3, second half: the loop over the entities. The rectangle tested is the one
  computed before the loop (\<^verbatim>\<open>playerRectH\<close>); the player is the one the earlier
  iterations left.\<close>

fun horizontalLoop :: "Rect \<Rightarrow> Entity list \<Rightarrow> PlayerState \<Rightarrow> PlayerState" where
  "horizontalLoop r [] p = p"
| "horizontalLoop r (ent # es) p =
     (if \<not> collidable ent then horizontalLoop r es p
      else if ent_type ent = WALL \<and> checkCollision r ent then
        let p1 = (if vec_x (vel p) > 0
                  then p\<lparr> pos := (pos p)\<lparr> vec_x := rect_x ent - PLAYER_SIZE \<rparr> \<rparr>
                  else if vec_x (vel p) < 0
                  then p\<lparr> pos := (pos p)\<lparr> vec_x := rect_x ent + rect_w ent \<rparr> \<rparr>
                  else p)
        in horizontalLoop r es (p1\<lparr> vel := (vel p1)\<lparr> vec_x := 0 \<rparr> \<rparr>)
      else horizontalLoop r es p)"

definition horizontalPass :: "LevelData \<Rightarrow> Entity list \<Rightarrow> PlayerState \<Rightarrow> PlayerState" where
  "horizontalPass level es p =
     (let p1 = moveX level p in horizontalLoop (playerRect p1) es p1)"

definition moveY :: "PlayerState \<Rightarrow> PlayerState" where
  "moveY p = p\<lparr> pos := (pos p)\<lparr> vec_y := vec_y (pos p) + vec_y (vel p) \<rparr> \<rparr>"

text \<open>Step 4: the loop over the entities, with the local \<^verbatim>\<open>groundedThisFrame\<close> as
  the second component of the state.\<close>

fun verticalLoop :: "Rect \<Rightarrow> Entity list \<Rightarrow> PlayerState \<times> bool \<Rightarrow> PlayerState \<times> bool" where
  "verticalLoop r [] pg = pg"
| "verticalLoop r (ent # es) (p, groundedThisFrame) =
     (if \<not> collidable ent then verticalLoop r es (p, groundedThisFrame)
      else if ent_type ent = WALL \<and> checkCollision r ent then
        (if vec_y (vel p) > 0
         then verticalLoop r es
                (p\<lparr> pos := (pos p)\<lparr> vec_y := rect_y ent - PLAYER_SIZE \<rparr>,
                    vel := (vel p)\<lparr> vec_y := 0 \<rparr> \<rparr>, True)
         else if vec_y (vel p) < 0
         then verticalLoop r es
                (p\<lparr> pos := (pos p)\<lparr> vec_y := rect_y ent + rect_h ent \<rparr>,
                    vel := (vel p)\<lparr> vec_y := 0 \<rparr> \<rparr>, groundedThisFrame)
         else verticalLoop r es (p, groundedThisFrame))
      else verticalLoop r es (p, groundedThisFrame))"

definition verticalPass :: "Entity list \<Rightarrow> PlayerState \<Rightarrow> PlayerState" where
  "verticalPass es p =
     (case verticalLoop (playerRect p) es (p, False) of
        (p1, groundedThisFrame) \<Rightarrow> p1\<lparr> isGrounded := groundedThisFrame \<rparr>)"

definition spikePlayerHitbox :: "Rect \<Rightarrow> Rect" where
  "spikePlayerHitbox finalRect =
     \<lparr> rect_x = rect_x finalRect + 6, rect_y = rect_y finalRect + 6,
       rect_w = rect_w finalRect - 12, rect_h = rect_h finalRect - 12 \<rparr>"

text \<open>Step 5: the loop over the entities. \<open>Some\<close> is a \<^verbatim>\<open>return\<close> out of
  \<^verbatim>\<open>update\<close> with the state it leaves; \<open>None\<close> is the loop running to its end.\<close>

fun checkLoop :: "Rect \<Rightarrow> Entity list \<Rightarrow> Game \<Rightarrow> Game option" where
  "checkLoop finalRect [] g = None"
| "checkLoop finalRect (ent # es) g =
     (if ent_type ent = SPIKE \<and> checkCollision (spikePlayerHitbox finalRect) ent
      then Some (handleDeath ''Spiked'' g)
      else if ent_type ent = GOAL \<and> checkCollision finalRect ent then
        (if fake (properties ent) then Some (handleDeath ''It was a trap!'' g)
         else if ent_id ent = ''fake-goal'' then checkLoop finalRect es g
         else Some (onWin g))
      else checkLoop finalRect es g)"

definition hazardGoalCheck :: "Game \<Rightarrow> Game option" where
  "hazardGoalCheck g = checkLoop (playerRect (player g)) (entities g) g"

text \<open>Steps 1 to 3 and the first statement of step 4: physics, mechanics, the
  horizontal pass, and the vertical velocity applied to the position.\<close>

definition movePhase :: "LevelData \<Rightarrow> Keys \<Rightarrow> Game \<Rightarrow> Game" where
  "movePhase level keys g =
     (let g1 = g\<lparr> player := applyPhysics keys (player g) \<rparr>;
          g2 = updateLevelMechanics (level_id level) g1;
          g3 = g2\<lparr> player := horizontalPass level (entities g2) (player g2) \<rparr>
      in g3\<lparr> player := moveY (player g3) \<rparr>)"

text \<open>The rest of step 4 after the void check: the vertical pass.\<close>

definition resolvePhase :: "Game \<Rightarrow> Game" where
  "resolvePhase g4 = g4\<lparr> player := verticalPass (entities g4) (player g4) \<rparr>"

definition update :: "LevelData \<Rightarrow> GameStatus \<Rightarrow> Keys \<Rightarrow> Game \<Rightarrow> Game" where
  "update level status keys g =
     (if status \<noteq> PLAYING then g
      else
        let g4 = movePhase level keys g
        in if vec_y (pos (player g4)) > height level + 100
           then handleDeath ''Fell into the void'' g4
           else
             let g5 = resolvePhase g4
             in case hazardGoalCheck g5 of
                  Some g6 \<Rightarrow> g6
                | None \<Rightarrow> g5\<lparr> frameCount := Suc (frameCount g5) \<rparr>)"

text \<open>A level load (the effect on \<^verbatim>\<open>[level, status]\<close>, when the status is not DEAD):
  the working entity list is a copy of the level's, the player is at the start.\<close>

definition loadLevel :: "LevelData \<Rightarrow> Game" where
  "loadLevel level =
     \<lparr> player = \<lparr> pos = startPos level, vel = \<lparr> vec_x = 0, vec_y = 0 \<rparr>,
                  isGrounded = False, dead = False, faceRight = True \<rparr>,
       entities = level_entities level,
       frameCount = 0,
       particleBursts = [],
       explosionSounds = 0,
       onDie_calls = [],
       onWin_calls = 0 \<rparr>"

text \<open>A run of frames of one attempt: each frame has the status the component was
  rendered with and the keys held.\<close>

fun runFrames :: "LevelData \<Rightarrow> (GameStatus \<times> Keys) list \<Rightarrow> Game \<Rightarrow> Game" where
  "runFrames level [] g = g"
| "runFrames level ((status, keys) # fs) g = runFrames level fs (update level status keys g)"

subsection \<open>Campaign levels used below (constants.ts)\<close>

definition startAt :: "real \<Rightarrow> real \<Rightarrow> Vector2" where
  "startAt cx cy = \<lparr> vec_x = cx * TILE_SIZE, vec_y = cy * TILE_SIZE \<rparr>"

definition level4Data :: LevelData where
  "level4Data =
     \<lparr> level_id = 4, level_name = ''Ghosted'', startPos = startAt 2 5,
       level_entities =
         [ createRect 0 0 1 15 WALL ''left-wall'',
           createRect 19 0 1 15 WALL ''right-wall'',
           createRect 0 0 20 1 WALL ''ceiling'',
           createRect 0 7 4 1 WALL ''start-plat'',
           createRect 0 14 20 1 SPIKE ''floor-spikes'',
           createRect 5 4 1 1 WALL ''inv-blocker'',
           createRect 7 7 5 1 WALL ''trap-plat'',
           createRect 16 7 4 1 WALL ''goal-plat'',
           createRect 17 5 1 2 GOAL ''goal'' ],
       width = 20 * TILE_SIZE, height = 15 * TILE_SIZE \<rparr>"

definition level7Data :: LevelData where
  "level7Data =
     \<lparr> level_id = 7, level_name = ''Timber!'', startPos = startAt 2 10,
       level_entities =
         [ createRect 0 0 1 12 WALL ''left-wall'',
           createRect 19 0 1 12 WALL ''right-wall'',
           createRect 0 0 20 1 WALL ''ceiling'',
           createRect 0 12 20 1 WALL ''floor'',
           createRect 17 10 1 2 GOAL ''goal'',
           createRect 10 1 2 4 WALL ''falling-pillar'',
           createRect 6 11 1 1 SPIKE ''ground-spike'' ],
       width = 20 * TILE_SIZE, height = 12 * TILE_SIZE \<rparr>"

definition level8Data :: LevelData where
  "level8Data =
     \<lparr> level_id = 8, level_name = ''The Press'', startPos = startAt 2 10,
       level_entities =
         [ createRect 0 0 1 12 WALL ''left-wall'',
           createRect 24 0 1 12 WALL ''right-wall'',
           createRect 0 12 25 1 WALL ''floor'',
           createRect 22 10 1 2 GOAL ''goal'',
           createRect 0 0 25 4 WALL ''crushing-ceiling'',
           createRect 8 11 1 1 SPIKE ''s1'',
           createRect 14 11 1 1 SPIKE ''s2'',
           createRect 19 11 1 1 SPIKE ''s3'' ],
       width = 25 * TILE_SIZE, height = 12 * TILE_SIZE \<rparr>"

definition level10Data :: LevelData where
  "level10Data =
     \<lparr> level_id = 10, level_name = ''Level Devil'', startPos = startAt 2 10,
       level_entities =
         [ createRect 0 0 1 14 WALL ''left-wall'',
           createRect 21 0 1 14 WALL ''right-wall'',
           createRect 0 0 22 1 WALL ''ceiling'',
           createRect 0 12 8 2 WALL ''floor-1'',
           createRect 8 13 14 1 SPIKE ''pit'',
           createRect 16 10 4 1 WALL ''plat'',
           createRect 18 8 1 2 GOAL ''fake-goal'',
           (createRect 2 3 1 2 GOAL ''real-goal'')\<lparr> visible := False, collidable := False \<rparr>,
           (createRect 14 9 2 1 WALL ''s1'')\<lparr> visible := False, collidable := True \<rparr>,
           (createRect 12 7 2 1 WALL ''s2'')\<lparr> visible := False, collidable := True \<rparr>,
           (createRect 10 5 2 1 WALL ''s3'')\<lparr> visible := False, collidable := True \<rparr>,
           (createRect 6 4 2 1 WALL ''s4'')\<lparr> visible := False, collidable := True \<rparr> ],
       width = 22 * TILE_SIZE, height = 14 * TILE_SIZE \<rparr>"

subsection \<open>The taunt service (generateTaunt)\<close>

text \<open>A JavaScript string is its list of UTF-16 code units. The remote model is an
  input of the embedding: what the awaited \<^verbatim>\<open>generateContent\<close> call does for the
  values interpolated into the prompt. The environment variable is a string or is
  undefined (\<open>None\<close>), read once when the module loads and once by the call.\<close>

type_synonym jsstring = "nat list"

datatype jsvalue = JsUndefined | JsString jsstring

datatype exn = Thrown

datatype textField =
    TextThrows
  | TextUndefined
  | TextString jsstring
  | TextNotAString

datatype apiResult =
    RequestFails
  | NoResponse
  | Response textField

definition FALLBACK_TAUNTS :: "jsstring list" where
  "FALLBACK_TAUNTS =
     [
       [0x91CD, 0x529B, 0x68C0, 0x6D4B, 0xFF1A, 0x901A, 0x8FC7, 0x3002],
       [0x4F60, 0x5FD8, 0x8BB0, 0x600E, 0x4E48, 0x8DF3, 0x4E86, 0x5417, 0xFF1F],
       [0x8FD9, 0x770B, 0x8D77, 0x6765, 0x5F88, 0x75DB, 0x3002],
       [0x4E5F, 0x8BB8, 0x8BD5, 0x8BD5, 0x002E, 0x002E, 0x002E, 0x4E0D, 0x8981, 0x6B7B,
        0xFF1F],
       [0x68C0, 0x6D4B, 0x5230, 0x64CD, 0x4F5C, 0x5931, 0x8BEF, 0x3002],
       [0x5730, 0x677F, 0x662F, 0x70EB, 0x7684, 0x5417, 0xFF1F, 0x54E6, 0x7B49, 0x7B49,
        0xFF0C, 0x662F, 0x523A, 0x3002],
       [0x4F60, 0x8BD5, 0x8FC7, 0x7741, 0x5F00, 0x773C, 0x775B, 0x73A9, 0x5417, 0xFF1F],
       [0x54CE, 0x5440, 0x3002],
       [0x6124, 0x6012, 0x9000, 0x51FA, 0x662F, 0x4E2A, 0x4E0D, 0x9519, 0x7684, 0x9009,
        0x62E9, 0x3002],
       [0x6211, 0x5976, 0x5976, 0x90FD, 0x6BD4, 0x4F60, 0x73A9, 0x5F97, 0x597D, 0x3002]
     ]"

text \<open>\<^verbatim>\<open>FALLBACK_TAUNTS[Math.floor(r * FALLBACK_TAUNTS.length)]\<close>, where \<open>r\<close> is the
  value \<^verbatim>\<open>Math.random()\<close> returned; an index outside the array reads
  \<^verbatim>\<open>undefined\<close>.\<close>

definition pickFallback :: "real \<Rightarrow> jsvalue" where
  "pickFallback r =
     (let i = \<lfloor>r * real (length FALLBACK_TAUNTS)\<rfloor>
      in if 0 \<le> i \<and> nat i < length FALLBACK_TAUNTS
         then JsString (FALLBACK_TAUNTS ! nat i) else JsUndefined)"

definition isWhiteSpace :: "nat \<Rightarrow> bool" where
  "isWhiteSpace c \<longleftrightarrow>
     (0x09 \<le> c \<and> c \<le> 0x0D) \<or> c = 0x20 \<or> c = 0xA0 \<or> c = 0x1680 \<or>
     (0x2000 \<le> c \<and> c \<le> 0x200A) \<or> c = 0x2028 \<or> c = 0x2029 \<or> c = 0x202F \<or>
     c = 0x205F \<or> c = 0x3000 \<or> c = 0xFEFF"

definition trim :: "jsstring \<Rightarrow> jsstring" where
  "trim s = rev (dropWhile isWhiteSpace (rev (dropWhile isWhiteSpace s)))"

text \<open>The module initialiser: the client exists when the key is set (a non-empty
  string) and the constructor did not throw.\<close>

definition initAI :: "jsstring option \<Rightarrow> bool \<Rightarrow> bool" where
  "initAI apiKey constructorThrows =
     (case apiKey of
        None \<Rightarrow> False
      | Some k \<Rightarrow> if k = [] then False else \<not> constructorThrows)"

definition truthyKey :: "jsstring option \<Rightarrow> bool" where
  "truthyKey apiKey = (case apiKey of None \<Rightarrow> False | Some k \<Rightarrow> k \<noteq> [])"

text \<open>The body of the \<^verbatim>\<open>try\<close> block: \<open>Inl\<close> is an exception leaving it.\<close>

definition tryRequest ::
  "(jsstring \<times> int \<times> jsstring \<Rightarrow> apiResult) \<Rightarrow> jsstring \<Rightarrow> int \<Rightarrow> jsstring \<Rightarrow> real \<Rightarrow> exn + jsvalue" where
  "tryRequest api levelName deathCount cause r =
     (case api (levelName, deathCount, cause) of
        RequestFails \<Rightarrow> Inl Thrown
      | NoResponse \<Rightarrow> Inr (pickFallback r)
      | Response t \<Rightarrow>
          (case t of
             TextThrows \<Rightarrow> Inl Thrown
           | TextUndefined \<Rightarrow> Inr (pickFallback r)
           | TextString s \<Rightarrow> if s = [] then Inr (pickFallback r) else Inr (JsString (trim s))
           | TextNotAString \<Rightarrow> Inl Thrown))"

text \<open>The result of the promise: \<open>Inl\<close> is a rejection, \<open>Inr\<close> the value it resolves
  to. \<open>ai\<close> says whether the module's client is non-null, \<open>apiKey\<close> is the environment
  variable as read by the call.\<close>

definition generateTaunt ::
  "bool \<Rightarrow> jsstring option \<Rightarrow> (jsstring \<times> int \<times> jsstring \<Rightarrow> apiResult) \<Rightarrow> real
     \<Rightarrow> jsstring \<Rightarrow> int \<Rightarrow> jsstring \<Rightarrow> exn + jsvalue" where
  "generateTaunt ai apiKey api r levelName deathCount cause =
     (if \<not> ai \<or> \<not> truthyKey apiKey then Inr (pickFallback r)
      else
        case tryRequest api levelName deathCount cause r of
          Inr v \<Rightarrow> Inr v
        | Inl e \<Rightarrow> Inr (pickFallback r))"

text \<open>The failure modes of a call: no credential at module load, a constructor that
  threw, no credential at the call, a request that failed (network, RPC, quota), no
  response object, a response whose text cannot be read, is missing, is empty or is
  not a string.\<close>

definition failureMode :: "jsstring option \<Rightarrow> bool \<Rightarrow> jsstring option \<Rightarrow> apiResult \<Rightarrow> bool" where
  "failureMode key0 constructorThrows apiKey res \<longleftrightarrow>
     \<not> truthyKey key0 \<or> constructorThrows \<or> \<not> truthyKey apiKey \<or>
     res = RequestFails \<or> res = NoResponse \<or> res = Response TextThrows \<or>
     res = Response TextUndefined \<or> res = Response (TextString []) \<or>
     res = Response TextNotAString"

subsection \<open>Fixtures and bookkeeping for the properties\<close>

definition noKeys :: Keys where
  "noKeys = \<lparr> key_right = False, key_left = False, key_jump = False \<rparr>"

text \<open>A level with no entity, whose start is so low that the first frame falls below
  \<open>height + 100\<close>.\<close>

definition pitLevel :: LevelData where
  "pitLevel =
     \<lparr> level_id = 11, level_name = ''pit'', startPos = \<lparr> vec_x = 80, vec_y = 139.5 \<rparr>,
       level_entities = [], width = 200, height = 40 \<rparr>"

text \<open>What the death handler writes: the dead flag, the \<^verbatim>\<open>onDie\<close> calls and the
  sounds played.\<close>

definition deathLog :: "Game \<Rightarrow> bool \<times> (Vector2 \<times> string) list \<times> nat" where
  "deathLog g = (dead (player g), onDie_calls g, explosionSounds g)"

definition oneDeathAtMost :: "Game \<Rightarrow> bool" where
  "oneDeathAtMost g \<longleftrightarrow>
     (if dead (player g) then length (onDie_calls g) \<le> 1 \<and> explosionSounds g \<le> 1
      else onDie_calls g = [] \<and> explosionSounds g = 0)"

text \<open>The floor contacts of a vertical pass: the entities at which the loop of step 4
  takes its downward branch (the one that sets \<^verbatim>\<open>groundedThisFrame\<close>), in order.\<close>

fun floorContacts :: "Rect \<Rightarrow> Entity list \<Rightarrow> PlayerState \<Rightarrow> Entity list" where
  "floorContacts r [] p = []"
| "floorContacts r (ent # es) p =
     (if \<not> collidable ent then floorContacts r es p
      else if ent_type ent = WALL \<and> checkCollision r ent then
        (if vec_y (vel p) > 0
         then ent # floorContacts r es
                (p\<lparr> pos := (pos p)\<lparr> vec_y := rect_y ent - PLAYER_SIZE \<rparr>,
                    vel := (vel p)\<lparr> vec_y := 0 \<rparr> \<rparr>)
         else if vec_y (vel p) < 0
         then floorContacts r es
                (p\<lparr> pos := (pos p)\<lparr> vec_y := rect_y ent + rect_h ent \<rparr>,
                    vel := (vel p)\<lparr> vec_y := 0 \<rparr> \<rparr>)
         else floorContacts r es p)
      else floorContacts r es p)"

text \<open>The floor contacts of a whole frame: none when the frame does not reach the
  vertical pass.\<close>

definition frameFloorContacts :: "LevelData \<Rightarrow> GameStatus \<Rightarrow> Keys \<Rightarrow> Game \<Rightarrow> Entity list" where
  "frameFloorContacts level status keys g =
     (if status \<noteq> PLAYING then []
      else
        let g4 = movePhase level keys g
        in if vec_y (pos (player g4)) > height level + 100 then []
           else floorContacts (playerRect (player g4)) (entities g4) (player g4))"

text \<open>A level whose only wall is a ledge 129.5 below the level's height, and the keys
  of a step to the right.\<close>

definition ledgeLevel :: LevelData where
  "ledgeLevel =
     \<lparr> level_id = 11, level_name = ''ledge'', startPos = \<lparr> vec_x = 96, vec_y = 139 \<rparr>,
       level_entities =
         [ \<lparr> rect_x = 0, rect_y = 169.5, rect_w = 100, rect_h = 40,
             ent_id = ''ledge'', ent_type = WALL, visible = True, collidable = True,
             properties = noProperties \<rparr> ],
       width = 200, height = 40 \<rparr>"

definition rightKey :: Keys where
  "rightKey = \<lparr> key_right = True, key_left = False, key_jump = False \<rparr>"

text \<open>Level 8 with the player standing on the floor and the ceiling \<open>n\<close> descents of 0.6
  below its start: the state of the campaign level after \<open>n\<close> frames without input.\<close>

definition pressState :: "nat \<Rightarrow> Game" where
  "pressState n =
     \<lparr> player = \<lparr> pos = \<lparr> vec_x = 80, vec_y = 450 \<rparr>, vel = \<lparr> vec_x = 0, vec_y = 0 \<rparr>,
                  isGrounded = True, dead = False, faceRight = True \<rparr>,
       entities =
         [ createRect 0 0 1 12 WALL ''left-wall'',
           createRect 24 0 1 12 WALL ''right-wall'',
           createRect 0 12 25 1 WALL ''floor'',
           createRect 22 10 1 2 GOAL ''goal'',
           (createRect 0 0 25 4 WALL ''crushing-ceiling'')\<lparr> rect_y := 0.6 * real n \<rparr>,
           createRect 8 11 1 1 SPIKE ''s1'',
           createRect 14 11 1 1 SPIKE ''s2'',
           createRect 19 11 1 1 SPIKE ''s3'' ],
       frameCount = n,
       particleBursts = [],
       explosionSounds = 0,
       onDie_calls = [],
       onWin_calls = 0 \<rparr>"

text \<open>The three tests of the loop of step 5, on the player's final rectangle: a spike
  that overlaps the shrunk hitbox, a goal that overlaps the rectangle, and a goal the
  loop steps over (the id \<^verbatim>\<open>fake-goal\<close> without the \<^verbatim>\<open>fake\<close> property).\<close>

definition lethalSpike :: "Rect \<Rightarrow> Entity \<Rightarrow> bool" where
  "lethalSpike finalRect e \<longleftrightarrow>
     ent_type e = SPIKE \<and> checkCollision (spikePlayerHitbox finalRect) e"

definition touchedGoal :: "Rect \<Rightarrow> Entity \<Rightarrow> bool" where
  "touchedGoal finalRect e \<longleftrightarrow> ent_type e = GOAL \<and> checkCollision finalRect e"

definition skippedGoal :: "Entity \<Rightarrow> bool" where
  "skippedGoal e \<longleftrightarrow> \<not> fake (properties e) \<and> ent_id e = ''fake-goal''"

definition endsCheck :: "Rect \<Rightarrow> Entity \<Rightarrow> bool" where
  "endsCheck finalRect e \<longleftrightarrow>
     lethalSpike finalRect e \<or> (touchedGoal finalRect e \<and> \<not> skippedGoal e)"

text \<open>An editor-style level: a goal tile and a spike tile side by side, the start one
  tile above the spike, nothing else.\<close>

definition trickLevel :: LevelData where
  "trickLevel =
     \<lparr> level_id = 11, level_name = ''trick'', startPos = startAt 5 4,
       level_entities =
         [ createRect 4 5 1 1 GOAL ''custom-4-5'',
           createRect 5 5 1 1 SPIKE ''custom-5-5'' ],
       width = 30 * TILE_SIZE, height = 15 * TILE_SIZE \<rparr>"

definition leftKey :: Keys where
  "leftKey = \<lparr> key_right = False, key_left = True, key_jump = False \<rparr>"

text \<open>The same two tiles in the other order.\<close>

definition spikeFirstLevel :: LevelData where
  "spikeFirstLevel = trickLevel\<lparr> level_entities := rev (level_entities trickLevel) \<rparr>"

text \<open>Level 10 as loaded, with the player standing on the platform of the bait goal and
  overlapping it.\<close>

definition atFakeGoal :: Game where
  "atFakeGoal =
     (loadLevel level10Data)
       \<lparr> player := \<lparr> pos = \<lparr> vec_x = 700, vec_y = 370 \<rparr>, vel = \<lparr> vec_x = 0, vec_y = 0 \<rparr>,
                     isGrounded = True, dead = False, faceRight = True \<rparr> \<rparr>"

text \<open>An editor-style level with one decoy goal tile (the FAKE\_GOAL tool) under the
  start.\<close>

definition decoyLevel :: LevelData where
  "decoyLevel =
     \<lparr> level_id = 11, level_name = ''decoy'', startPos = startAt 4 4,
       level_entities =
         [ (createRect 4 5 1 1 GOAL ''custom-4-5'')\<lparr> properties := noProperties\<lparr> fake := True \<rparr> \<rparr> ],
       width = 30 * TILE_SIZE, height = 15 * TILE_SIZE \<rparr>"

text \<open>Looking an entity up by id, as \<^verbatim>\<open>entities.find(e => e.id === i)\<close> does, and its
  two flags (visible, collidable).\<close>

definition entityById :: "string \<Rightarrow> Entity list \<Rightarrow> Entity option" where
  "entityById i es = find (\<lambda>e. ent_id e = i) es"

definition flagsOf :: "string \<Rightarrow> Entity list \<Rightarrow> (bool \<times> bool) option" where
  "flagsOf i es = map_option (\<lambda>e. (visible e, collidable e)) (entityById i es)"

definition revealIds :: "string list" where
  "revealIds = [''fake-goal'', ''real-goal'', ''s1'', ''s2'', ''s3'', ''s4'']"

text \<open>The falling pillar of level 7: its lower edge, the floor line of the rule, and its
  vertical velocity (an absent \<^verbatim>\<open>vy\<close> reads as 0).\<close>

definition lowerEdge :: "Entity \<Rightarrow> real" where
  "lowerEdge e = rect_y e + rect_h e"

definition floorLine :: real where
  "floorLine = 12 * TILE_SIZE"

definition fallSpeed :: "Entity \<Rightarrow> real" where
  "fallSpeed e = (case prop_vy (properties e) of None \<Rightarrow> 0 | Some v \<Rightarrow> v)"

text \<open>An entity that none of the two generic rules applies to.\<close>

definition noGenericRule :: "Entity \<Rightarrow> bool" where
  "noGenericRule e \<longleftrightarrow>
     \<not> trap (properties e) \<and> fallingStrategy (properties e) \<noteq> Some ''proximity''"

text \<open>Level 7 as loaded, with the player on the floor just past the trigger line.\<close>

definition pastTrigger :: Game where
  "pastTrigger =
     (loadLevel level7Data)
       \<lparr> player := \<lparr> pos = \<lparr> vec_x = 205, vec_y = 450 \<rparr>, vel = \<lparr> vec_x = 5, vec_y = 0 \<rparr>,
                     isGrounded = True, dead = False, faceRight = True \<rparr> \<rparr>"

text \<open>The qualifying contact of the crumbling rules: the player, as the mechanics see
  it, is grounded and overlaps the trigger region of the trap.\<close>

definition qualifies :: "PlayerState \<Rightarrow> Entity \<Rightarrow> bool" where
  "qualifies p t \<longleftrightarrow> checkCollision (playerRect p) (trapRect t) \<and> isGrounded p"

text \<open>The two settings of a crumbling trap: an entity with the \<^verbatim>\<open>trap\<close> property (and
  not the falling strategy) in a level whose id has no campaign rule, as the levels of
  the editor are; and the entity \<^verbatim>\<open>trap-plat\<close> of level 4, with no generic rule on
  it.\<close>

definition customLevel :: "LevelData \<Rightarrow> bool" where
  "customLevel level \<longleftrightarrow> level_id level \<notin> {1, 2, 3, 4, 7, 8, 9, 10}"

definition crumblingTrap :: "LevelData \<Rightarrow> string \<Rightarrow> Entity \<Rightarrow> bool" where
  "crumblingTrap level i t \<longleftrightarrow>
     (customLevel level \<and> trap (properties t) \<and>
        fallingStrategy (properties t) \<noteq> Some ''proximity'') \<or>
     (level_id level = 4 \<and> i = ''trap-plat'' \<and> noGenericRule t)"

text \<open>Whether a contact can start the countdown: the generic rule asks for a trap that
  is visible and collidable, the rule of level 4 does not.\<close>

definition startable :: "LevelData \<Rightarrow> Entity \<Rightarrow> bool" where
  "startable level t \<longleftrightarrow> level_id level = 4 \<or> (visible t \<and> collidable t)"

text \<open>The trap after \<open>k\<close> more frames of a countdown that stands at \<open>m\<close>.\<close>

definition ticked :: "real \<Rightarrow> nat \<Rightarrow> Entity \<Rightarrow> Entity" where
  "ticked m k t =
     t\<lparr> visible := visible t \<and> (k = 0 \<or> m + real k \<le> 20),
        collidable := collidable t \<and> (k = 0 \<or> m + real k \<le> 20),
        properties := (properties t)\<lparr> timer := Some (m + real k) \<rparr> \<rparr>"

text \<open>An editor-style level: one trap tile (the TRAP\_WALL tool) under the start; and
  the keys of a jump to the right.\<close>

definition trapTile :: Entity where
  "trapTile =
     (createRect 5 5 1 1 WALL ''custom-5-5'')\<lparr> properties := noProperties\<lparr> trap := True \<rparr> \<rparr>"

definition trapLevel :: LevelData where
  "trapLevel =
     \<lparr> level_id = 11, level_name = ''trap'', startPos = startAt 5 4,
       level_entities = [trapTile],
       width = 30 * TILE_SIZE, height = 15 * TILE_SIZE \<rparr>"

definition jumpRightKey :: Keys where
  "jumpRightKey = \<lparr> key_right = True, key_left = False, key_jump = True \<rparr>"

text \<open>The rule that a playing frame applies to a crumbling trap.\<close>

definition trapStep :: "LevelData \<Rightarrow> PlayerState \<Rightarrow> Entity \<Rightarrow> Entity" where
  "trapStep level p t = (if level_id level = 4 then level4Trap p t else genericTrap p t)"

section \<open>Verified properties\<close>

subsection \<open>The taunt service never rejects\<close>

lemma length_FALLBACK_TAUNTS: "length FALLBACK_TAUNTS = 10"
  by (simp add: FALLBACK_TAUNTS_def)

lemma pickFallback_member:
  assumes "0 \<le> r" "r < 1"
  shows "\<exists>s \<in> set FALLBACK_TAUNTS. pickFallback r = JsString s"
proof -
  have lo: "0 \<le> \<lfloor>r * 10\<rfloor>" using assms by simp
  have "r * 10 < 10" using assms by simp
  then have hi: "\<lfloor>r * 10\<rfloor> < 10" by linarith
  from lo hi have "nat \<lfloor>r * 10\<rfloor> < length FALLBACK_TAUNTS"
    unfolding length_FALLBACK_TAUNTS by linarith
  then show ?thesis
    using lo by (auto simp: pickFallback_def Let_def length_FALLBACK_TAUNTS)
qed

text \<open>
  Claim C9. For every level name, death count and cause, every state of the
  credential and of the client, and everything the remote call can do (fail, return
  nothing, return a response whose text is missing, empty, unreadable or not a
  string, or return a text), the promise of \<open>generateTaunt\<close> resolves to a string and
  is never rejected; in every failure mode the string is a member of
  \<open>FALLBACK_TAUNTS\<close>. \<open>r\<close> is the value of \<^verbatim>\<open>Math.random()\<close>, which lies in
  \<open>[0, 1)\<close>.
\<close>

theorem generateTaunt_never_raises:
  assumes "0 \<le> r" "r < 1"
  shows "\<exists>s. generateTaunt (initAI key0 constructorThrows) apiKey api r levelName deathCount cause
           = Inr (JsString s) \<and>
         (failureMode key0 constructorThrows apiKey (api (levelName, deathCount, cause))
            \<longrightarrow> s \<in> set FALLBACK_TAUNTS)"
proof -
  obtain f where f: "f \<in> set FALLBACK_TAUNTS" "pickFallback r = JsString f"
    using pickFallback_member [OF assms] by blast
  show ?thesis
  proof (cases "\<not> initAI key0 constructorThrows \<or> \<not> truthyKey apiKey")
    case True
    then show ?thesis using f by (auto simp: generateTaunt_def)
  next
    case False
    then have ok: "truthyKey key0" "\<not> constructorThrows" "truthyKey apiKey"
      by (auto simp: initAI_def truthyKey_def split: option.splits if_splits)
    show ?thesis
    proof (cases "api (levelName, deathCount, cause)")
      case RequestFails
      then show ?thesis using False f by (simp add: generateTaunt_def tryRequest_def)
    next
      case NoResponse
      then show ?thesis using False f by (simp add: generateTaunt_def tryRequest_def)
    next
      case (Response t)
      then show ?thesis using False f ok
        by (cases t) (auto simp: generateTaunt_def tryRequest_def failureMode_def)
    qed
  qed
qed

text \<open>The theorem at a call whose request fails, with a credential and a client.\<close>

theorem generateTaunt_never_raises_witness:
  "\<exists>s. generateTaunt (initAI (Some [0x6B]) False) (Some [0x6B]) (\<lambda>_. RequestFails) (1/2)
          [0x4C] 3 [0x53] = Inr (JsString s) \<and> s \<in> set FALLBACK_TAUNTS"
proof -
  have a: "(0::real) \<le> 1/2" and b: "(1/2::real) < 1" by simp_all
  show ?thesis
    using generateTaunt_never_raises [OF a b, of "Some [0x6B]" False "Some [0x6B]"
        "\<lambda>_. RequestFails" "[0x4C]" 3 "[0x53]"]
    by (simp add: failureMode_def)
qed

subsection \<open>Facts about the stages of a frame\<close>

lemmas frame_defs =
  update_def movePhase_def resolvePhase_def applyPhysics_def updateLevelMechanics_def campaignMechanics_def
  genericMechanics_def forEachWhere_def horizontalPass_def moveX_def moveY_def verticalPass_def
  hazardGoalCheck_def playerRect_def spikePlayerHitbox_def checkCollision_def
  handleDeath_def spawnParticles_def playExplosionSound_def onDie_def onWin_def
  loadLevel_def createRect_def noProperties_def startAt_def Let_def consts_defs

lemma handleDeath_dead: "dead (player g) \<Longrightarrow> handleDeath cause g = g"
  by (simp add: handleDeath_def)

lemma handleDeath_alive:
  "\<not> dead (player g) \<Longrightarrow>
   handleDeath cause g =
     g\<lparr> player := (player g)\<lparr> dead := True \<rparr>,
        particleBursts := particleBursts g @ [(vec_x (pos (player g)), vec_y (pos (player g)))],
        explosionSounds := Suc (explosionSounds g),
        onDie_calls := onDie_calls g @ [(pos (player g), cause)] \<rparr>"
  by (simp add: handleDeath_def Let_def spawnParticles_def playExplosionSound_def onDie_def)

lemma applyPhysics_dead [simp]: "dead (applyPhysics keys p) = dead p"
  by (simp add: applyPhysics_def Let_def)

lemma horizontalLoop_dead [simp]: "dead (horizontalLoop r es p) = dead p"
  by (induction r es p rule: horizontalLoop.induct) (simp_all add: Let_def)

lemma horizontalPass_dead [simp]: "dead (horizontalPass level es p) = dead p"
  by (simp add: horizontalPass_def moveX_def Let_def)

lemma moveY_dead [simp]: "dead (moveY p) = dead p"
  by (simp add: moveY_def)

lemma verticalLoop_dead [simp]: "dead (fst (verticalLoop r es pg)) = dead (fst pg)"
  by (induction r es pg rule: verticalLoop.induct) simp_all

lemma verticalPass_dead [simp]: "dead (verticalPass es p) = dead p"
  using verticalLoop_dead [of "playerRect p" es "(p, False)"]
  by (cases "verticalLoop (playerRect p) es (p, False)") (simp add: verticalPass_def)

lemma level10_player [simp]: "player (level10 g) = player g"
  by (simp add: level10_def spawnParticles_def split: option.splits)

lemma level10_logs [simp]:
  "onDie_calls (level10 g) = onDie_calls g"
  "explosionSounds (level10 g) = explosionSounds g"
  "onWin_calls (level10 g) = onWin_calls g"
  "frameCount (level10 g) = frameCount g"
  by (simp_all add: level10_def spawnParticles_def split: option.splits)

lemma updateLevelMechanics_player [simp]: "player (updateLevelMechanics l g) = player g"
  by (simp add: updateLevelMechanics_def Let_def)

lemma updateLevelMechanics_logs [simp]:
  "onDie_calls (updateLevelMechanics l g) = onDie_calls g"
  "explosionSounds (updateLevelMechanics l g) = explosionSounds g"
  "onWin_calls (updateLevelMechanics l g) = onWin_calls g"
  "frameCount (updateLevelMechanics l g) = frameCount g"
  by (simp_all add: updateLevelMechanics_def Let_def)

lemma movePhase_dead [simp]: "dead (player (movePhase level keys g)) = dead (player g)"
  by (simp add: movePhase_def Let_def)

lemma movePhase_logs [simp]:
  "onDie_calls (movePhase level keys g) = onDie_calls g"
  "explosionSounds (movePhase level keys g) = explosionSounds g"
  "onWin_calls (movePhase level keys g) = onWin_calls g"
  "frameCount (movePhase level keys g) = frameCount g"
  by (simp_all add: movePhase_def Let_def)

lemma resolvePhase_dead [simp]: "dead (player (resolvePhase g)) = dead (player g)"
  by (simp add: resolvePhase_def)

lemma resolvePhase_logs [simp]:
  "onDie_calls (resolvePhase g) = onDie_calls g"
  "explosionSounds (resolvePhase g) = explosionSounds g"
  "onWin_calls (resolvePhase g) = onWin_calls g"
  "frameCount (resolvePhase g) = frameCount g"
  "entities (resolvePhase g) = entities g"
  by (simp_all add: resolvePhase_def)

lemma checkLoop_result:
  "checkLoop r es g = Some g' \<Longrightarrow>
   g' = handleDeath ''Spiked'' g \<or> g' = handleDeath ''It was a trap!'' g \<or> g' = onWin g"
  by (induction r es g rule: checkLoop.induct) (auto split: if_splits)


lemma update_dead_keeps_log:
  assumes "dead (player g)"
  shows "deathLog (update level status keys g) = deathLog g"
proof (cases "status = PLAYING")
  case False
  then show ?thesis by (simp add: update_def)
next
  case True
  let ?g4 = "movePhase level keys g"
  let ?g5 = "resolvePhase ?g4"
  have d4: "dead (player ?g4)" using assms by simp
  have d5: "dead (player ?g5)" using assms by simp
  have l4: "deathLog ?g4 = deathLog g" by (simp add: deathLog_def)
  have l5: "deathLog ?g5 = deathLog g" by (simp add: deathLog_def)
  show ?thesis
  proof (cases "vec_y (pos (player ?g4)) > height level + 100")
    case void: True
    then show ?thesis using True d4 l4
      by (simp add: update_def Let_def handleDeath_dead)
  next
    case novoid: False
    show ?thesis
    proof (cases "hazardGoalCheck ?g5")
      case None
      then show ?thesis using True novoid l5
        by (simp add: update_def Let_def deathLog_def)
    next
      case (Some g6)
      then have "g6 = handleDeath ''Spiked'' ?g5 \<or> g6 = handleDeath ''It was a trap!'' ?g5 \<or> g6 = onWin ?g5"
        unfolding hazardGoalCheck_def by (rule checkLoop_result)
      then have "deathLog g6 = deathLog ?g5"
        using d5 by (auto simp: handleDeath_dead onWin_def deathLog_def)
      then show ?thesis using True novoid Some l5
        by (simp add: update_def Let_def)
    qed
  qed
qed


subsection \<open>One death per attempt\<close>

lemma handleDeath_log:
  "\<not> dead (player g) \<Longrightarrow>
   deathLog (handleDeath cause g) =
     (True, onDie_calls g @ [(pos (player g), cause)], Suc (explosionSounds g))"
  by (simp add: handleDeath_alive deathLog_def)

lemma update_alive_log:
  assumes "\<not> dead (player g)"
  shows "deathLog (update level status keys g) = deathLog g \<or>
         (\<exists>e. deathLog (update level status keys g)
                = (True, onDie_calls g @ [e], Suc (explosionSounds g)))"
proof (cases "status = PLAYING")
  case False
  then show ?thesis by (simp add: update_def)
next
  case True
  let ?g4 = "movePhase level keys g"
  let ?g5 = "resolvePhase ?g4"
  have d4: "\<not> dead (player ?g4)" using assms by simp
  have d5: "\<not> dead (player ?g5)" using assms by simp
  have l4: "deathLog ?g4 = deathLog g" by (simp add: deathLog_def)
  have l5: "deathLog ?g5 = deathLog g" by (simp add: deathLog_def)
  show ?thesis
  proof (cases "vec_y (pos (player ?g4)) > height level + 100")
    case void: True
    then have "update level status keys g = handleDeath ''Fell into the void'' ?g4"
      using True by (simp add: update_def Let_def)
    then show ?thesis using handleDeath_log [OF d4] by simp
  next
    case novoid: False
    show ?thesis
    proof (cases "hazardGoalCheck ?g5")
      case None
      then show ?thesis using True novoid l5
        by (simp add: update_def Let_def deathLog_def)
    next
      case (Some g6)
      then have "g6 = handleDeath ''Spiked'' ?g5 \<or> g6 = handleDeath ''It was a trap!'' ?g5 \<or> g6 = onWin ?g5"
        unfolding hazardGoalCheck_def by (rule checkLoop_result)
      moreover have "update level status keys g = g6"
        using True novoid Some by (simp add: update_def Let_def)
      moreover have "deathLog (onWin ?g5) = deathLog g"
        by (simp add: onWin_def deathLog_def)
      moreover have "onDie_calls ?g5 = onDie_calls g" "explosionSounds ?g5 = explosionSounds g"
        by simp_all
      ultimately show ?thesis
        using handleDeath_log [OF d5, of "''Spiked''"] handleDeath_log [OF d5, of "''It was a trap!''"]
        by auto
    qed
  qed
qed

lemma update_oneDeathAtMost:
  assumes "oneDeathAtMost g"
  shows "oneDeathAtMost (update level status keys g)"
proof (cases "dead (player g)")
  case True
  from update_dead_keeps_log [OF True, of level status keys] assms True
  show ?thesis by (simp add: deathLog_def oneDeathAtMost_def)
next
  case False
  from update_alive_log [OF False, of level status keys] assms False
  show ?thesis by (auto simp: deathLog_def oneDeathAtMost_def)
qed

lemma runFrames_oneDeathAtMost:
  "oneDeathAtMost g \<Longrightarrow> oneDeathAtMost (runFrames level frames g)"
  by (induction level frames g rule: runFrames.induct) (simp_all add: update_oneDeathAtMost)

lemma runFrames_dead_keeps_log:
  "dead (player g) \<Longrightarrow> deathLog (runFrames level frames g) = deathLog g"
proof (induction level frames g rule: runFrames.induct)
  case (1 level g)
  then show ?case by simp
next
  case (2 level status keys fs g)
  have eq: "deathLog (update level status keys g) = deathLog g"
    using "2.prems" by (rule update_dead_keeps_log)
  then have "dead (player (update level status keys g))"
    using "2.prems" by (simp add: deathLog_def)
  then show ?case using "2.IH" eq by simp
qed

text \<open>
  Claim C10. The death handler is idempotent per attempt: on a player that is already
  dead it returns the state unchanged (no particles, no sound, no \<^verbatim>\<open>onDie\<close>
  call), and through any later frames, whatever their status and keys, the player
  stays dead and no further \<^verbatim>\<open>onDie\<close> call or sound is made. An attempt that
  starts from a level load therefore logs at most one death.
\<close>

theorem handleDeath_once_per_attempt:
  "(dead (player g) \<longrightarrow>
      handleDeath cause g = g \<and>
      dead (player (runFrames level frames g)) \<and>
      onDie_calls (runFrames level frames g) = onDie_calls g \<and>
      explosionSounds (runFrames level frames g) = explosionSounds g) \<and>
   length (onDie_calls (runFrames level frames (loadLevel level))) \<le> 1 \<and>
   explosionSounds (runFrames level frames (loadLevel level)) \<le> 1"
proof -
  have "oneDeathAtMost (loadLevel level)"
    by (simp add: oneDeathAtMost_def loadLevel_def)
  then have "oneDeathAtMost (runFrames level frames (loadLevel level))"
    by (rule runFrames_oneDeathAtMost)
  then have fresh: "length (onDie_calls (runFrames level frames (loadLevel level))) \<le> 1 \<and>
    explosionSounds (runFrames level frames (loadLevel level)) \<le> 1"
    by (auto simp: oneDeathAtMost_def split: if_splits)
  show ?thesis
    using fresh runFrames_dead_keeps_log [of g level frames]
    by (auto simp: handleDeath_dead deathLog_def)
qed



lemma pit_frame1:
  "update pitLevel PLAYING noKeys (loadLevel pitLevel) =
     \<lparr> player = \<lparr> pos = \<lparr> vec_x = 80, vec_y = 140.1 \<rparr>, vel = \<lparr> vec_x = 0, vec_y = 0.6 \<rparr>,
                  isGrounded = False, dead = True, faceRight = True \<rparr>,
       entities = [], frameCount = 0, particleBursts = [(80, 140.1)], explosionSounds = 1,
       onDie_calls = [(\<lparr> vec_x = 80, vec_y = 140.1 \<rparr>, ''Fell into the void'')],
       onWin_calls = 0 \<rparr>"
  by (simp add: frame_defs pitLevel_def noKeys_def)

text \<open>The theorem on the pit level: the first frame dies in the void, the handler
  called again changes nothing, and two more playing frames log nothing more.\<close>

theorem handleDeath_once_per_attempt_witness:
  "dead (player (update pitLevel PLAYING noKeys (loadLevel pitLevel))) \<and>
   handleDeath ''Spiked'' (update pitLevel PLAYING noKeys (loadLevel pitLevel))
     = update pitLevel PLAYING noKeys (loadLevel pitLevel) \<and>
   onDie_calls (runFrames pitLevel [(PLAYING, noKeys), (PLAYING, noKeys)]
                  (update pitLevel PLAYING noKeys (loadLevel pitLevel)))
     = [(\<lparr> vec_x = 80, vec_y = 140.1 \<rparr>, ''Fell into the void'')]"
proof -
  have d: "dead (player (update pitLevel PLAYING noKeys (loadLevel pitLevel)))"
    by (simp add: pit_frame1)
  show ?thesis
    using d handleDeath_once_per_attempt
      [of "update pitLevel PLAYING noKeys (loadLevel pitLevel)" "''Spiked''" pitLevel
          "[(PLAYING, noKeys), (PLAYING, noKeys)]"]
    by (simp add: pit_frame1)
qed

subsection \<open>The void check\<close>

lemma horizontalLoop_vertical [simp]:
  "vec_y (pos (horizontalLoop r es p)) = vec_y (pos p)"
  "vec_y (vel (horizontalLoop r es p)) = vec_y (vel p)"
  "isGrounded (horizontalLoop r es p) = isGrounded p"
  by (induction r es p rule: horizontalLoop.induct) (simp_all add: Let_def)

lemma horizontalPass_vertical [simp]:
  "vec_y (pos (horizontalPass level es p)) = vec_y (pos p)"
  "vec_y (vel (horizontalPass level es p)) = vec_y (vel p)"
  "isGrounded (horizontalPass level es p) = isGrounded p"
  by (simp_all add: horizontalPass_def moveX_def Let_def)

lemma applyPhysics_pos [simp]: "pos (applyPhysics keys p) = pos p"
  by (simp add: applyPhysics_def Let_def)

lemma movePhase_y:
  "vec_y (pos (player (movePhase level keys g)))
     = vec_y (pos (player g)) + vec_y (vel (applyPhysics keys (player g)))"
  by (simp add: movePhase_def Let_def moveY_def)

lemma movePhase_isGrounded:
  "isGrounded (player (movePhase level keys g)) = isGrounded (applyPhysics keys (player g))"
  by (simp add: movePhase_def Let_def moveY_def)

lemma update_void:
  "vec_y (pos (player (movePhase level keys g))) > height level + 100 \<Longrightarrow>
   update level PLAYING keys g = handleDeath ''Fell into the void'' (movePhase level keys g)"
  by (simp add: update_def Let_def)

lemma update_no_void:
  "\<not> vec_y (pos (player (movePhase level keys g))) > height level + 100 \<Longrightarrow>
   update level PLAYING keys g =
     (case hazardGoalCheck (resolvePhase (movePhase level keys g)) of
        Some g6 \<Rightarrow> g6
      | None \<Rightarrow> (resolvePhase (movePhase level keys g))
                  \<lparr> frameCount := Suc (frameCount (resolvePhase (movePhase level keys g))) \<rparr>)"
  by (simp add: update_def Let_def)

text \<open>
  Claim C6. In a playing frame in which the player's y position, once the vertical
  velocity of the frame is added to it, exceeds \<open>height level + 100\<close>, the frame ends in
  the call \<^verbatim>\<open>handleDeath("Fell into the void")\<close> on the state the move left, whatever
  the x position and the entities are: neither the vertical pass nor the spike and
  goal checks run. For a player who was alive this is a death: the player is dead,
  \<^verbatim>\<open>onDie\<close> is called once with that cause, \<^verbatim>\<open>onWin\<close> is not called.
\<close>

theorem void_fall_is_death:
  assumes "vec_y (pos (player g)) + vec_y (vel (applyPhysics keys (player g))) > height level + 100"
  shows "update level PLAYING keys g = handleDeath ''Fell into the void'' (movePhase level keys g) \<and>
         (\<not> dead (player g) \<longrightarrow>
            dead (player (update level PLAYING keys g)) \<and>
            onDie_calls (update level PLAYING keys g)
              = onDie_calls g @ [(pos (player (movePhase level keys g)), ''Fell into the void'')] \<and>
            onWin_calls (update level PLAYING keys g) = onWin_calls g)"
proof -
  have void: "vec_y (pos (player (movePhase level keys g))) > height level + 100"
    using assms by (simp add: movePhase_y)
  have eq: "update level PLAYING keys g = handleDeath ''Fell into the void'' (movePhase level keys g)"
    using void by (rule update_void)
  show ?thesis
  proof (cases "dead (player g)")
    case True
    then show ?thesis using eq by simp
  next
    case False
    then have "\<not> dead (player (movePhase level keys g))" by simp
    then show ?thesis using eq by (simp add: handleDeath_alive)
  qed
qed

text \<open>The theorem on the first frame of the pit level.\<close>

theorem void_fall_is_death_witness:
  "vec_y (pos (player (loadLevel pitLevel)))
     + vec_y (vel (applyPhysics noKeys (player (loadLevel pitLevel)))) > height pitLevel + 100 \<and>
   \<not> dead (player (loadLevel pitLevel)) \<and>
   dead (player (update pitLevel PLAYING noKeys (loadLevel pitLevel))) \<and>
   onDie_calls (update pitLevel PLAYING noKeys (loadLevel pitLevel))
     = [(\<lparr> vec_x = 80, vec_y = 140.1 \<rparr>, ''Fell into the void'')] \<and>
   onWin_calls (update pitLevel PLAYING noKeys (loadLevel pitLevel)) = 0"
proof -
  have h: "vec_y (pos (player (loadLevel pitLevel)))
     + vec_y (vel (applyPhysics noKeys (player (loadLevel pitLevel)))) > height pitLevel + 100"
    by (simp add: loadLevel_def pitLevel_def noKeys_def applyPhysics_def Let_def consts_defs)
  have a: "\<not> dead (player (loadLevel pitLevel))"
    by (simp add: loadLevel_def)
  have m: "pos (player (movePhase pitLevel noKeys (loadLevel pitLevel)))
             = \<lparr> vec_x = 80, vec_y = 140.1 \<rparr>"
    by (simp add: frame_defs pitLevel_def noKeys_def)
  have r: "onDie_calls (loadLevel pitLevel) = []" "onWin_calls (loadLevel pitLevel) = 0"
    by (simp_all add: loadLevel_def)
  have "dead (player (update pitLevel PLAYING noKeys (loadLevel pitLevel))) \<and>
        onDie_calls (update pitLevel PLAYING noKeys (loadLevel pitLevel))
          = onDie_calls (loadLevel pitLevel)
            @ [(pos (player (movePhase pitLevel noKeys (loadLevel pitLevel))), ''Fell into the void'')] \<and>
        onWin_calls (update pitLevel PLAYING noKeys (loadLevel pitLevel))
          = onWin_calls (loadLevel pitLevel)"
    using a void_fall_is_death [OF h] by blast
  then show ?thesis
    using h a by (simp add: m r)
qed

subsection \<open>The grounded flag\<close>

lemma verticalLoop_grounded:
  "snd (verticalLoop r es (p, b)) \<longleftrightarrow> b \<or> floorContacts r es p \<noteq> []"
  by (induction r es p arbitrary: b rule: floorContacts.induct) simp_all

lemma floorContacts_iff:
  "floorContacts r es p \<noteq> [] \<longleftrightarrow>
     vec_y (vel p) > 0 \<and> (\<exists>e \<in> set es. collidable e \<and> ent_type e = WALL \<and> checkCollision r e)"
  by (induction r es p rule: floorContacts.induct) auto

lemma verticalPass_isGrounded:
  "isGrounded (verticalPass es p) \<longleftrightarrow> floorContacts (playerRect p) es p \<noteq> []"
  using verticalLoop_grounded [of "playerRect p" es p False]
  by (cases "verticalLoop (playerRect p) es (p, False)") (simp add: verticalPass_def)

lemma handleDeath_isGrounded [simp]:
  "isGrounded (player (handleDeath cause g)) = isGrounded (player g)"
  by (simp add: handleDeath_def Let_def spawnParticles_def playExplosionSound_def onDie_def)

lemma hazardGoalCheck_isGrounded:
  "hazardGoalCheck g = Some g' \<Longrightarrow> isGrounded (player g') = isGrounded (player g)"
  unfolding hazardGoalCheck_def
  by (drule checkLoop_result) (auto simp: onWin_def)

lemma update_isGrounded_no_void:
  assumes "\<not> vec_y (pos (player (movePhase level keys g))) > height level + 100"
  shows "isGrounded (player (update level PLAYING keys g))
           = isGrounded (player (resolvePhase (movePhase level keys g)))"
proof (cases "hazardGoalCheck (resolvePhase (movePhase level keys g))")
  case None
  then show ?thesis using update_no_void [OF assms] by simp
next
  case (Some g6)
  then show ?thesis
    using update_no_void [OF assms] hazardGoalCheck_isGrounded [OF Some] by simp
qed

lemma ledge_frame1:
  "update ledgeLevel PLAYING noKeys (loadLevel ledgeLevel) =
     \<lparr> player = \<lparr> pos = \<lparr> vec_x = 96, vec_y = 139.5 \<rparr>, vel = \<lparr> vec_x = 0, vec_y = 0 \<rparr>,
                  isGrounded = True, dead = False, faceRight = True \<rparr>,
       entities = level_entities ledgeLevel, frameCount = 1, particleBursts = [],
       explosionSounds = 0, onDie_calls = [], onWin_calls = 0 \<rparr>"
  by (simp add: frame_defs ledgeLevel_def noKeys_def)

lemma ledge_frame2_move:
  "movePhase ledgeLevel rightKey (update ledgeLevel PLAYING noKeys (loadLevel ledgeLevel)) =
     \<lparr> player = \<lparr> pos = \<lparr> vec_x = 101, vec_y = 140.1 \<rparr>, vel = \<lparr> vec_x = 5, vec_y = 0.6 \<rparr>,
                  isGrounded = True, dead = False, faceRight = True \<rparr>,
       entities = level_entities ledgeLevel, frameCount = 1, particleBursts = [],
       explosionSounds = 0, onDie_calls = [], onWin_calls = 0 \<rparr>"
  unfolding ledge_frame1
  by (simp add: frame_defs ledgeLevel_def rightKey_def)

text \<open>
  Claim C5, as stated, fails on a frame that the void check ends: the return comes
  before the vertical pass and before the assignment of \<^verbatim>\<open>isGrounded\<close>. On the ledge
  level the first frame lands on the ledge; the second steps off it and falls below
  \<open>height + 100\<close>: it has no floor contact, and its player is still grounded.
\<close>

theorem grounded_carries_over_counterexample:
  "isGrounded (player (runFrames ledgeLevel [(PLAYING, noKeys), (PLAYING, rightKey)]
                         (loadLevel ledgeLevel))) \<and>
   frameFloorContacts ledgeLevel PLAYING rightKey
     (update ledgeLevel PLAYING noKeys (loadLevel ledgeLevel)) = []"
proof -
  have void: "vec_y (pos (player (movePhase ledgeLevel rightKey
                (update ledgeLevel PLAYING noKeys (loadLevel ledgeLevel))))) > height ledgeLevel + 100"
    unfolding ledge_frame2_move by (simp add: ledgeLevel_def)
  have "isGrounded (player (update ledgeLevel PLAYING rightKey
                (update ledgeLevel PLAYING noKeys (loadLevel ledgeLevel))))"
    unfolding update_void [OF void] ledge_frame2_move by simp
  moreover have "frameFloorContacts ledgeLevel PLAYING rightKey
     (update ledgeLevel PLAYING noKeys (loadLevel ledgeLevel)) = []"
    using void by (simp add: frameFloorContacts_def Let_def)
  ultimately show ?thesis by simp
qed

text \<open>
  Claim C5, amended. In every playing frame that the void check does not end, the
  grounded flag at the end of the frame is true if and only if the vertical pass of
  that frame made at least one floor contact, that is, if and only if the vertical
  velocity of the frame is downward and some collidable wall overlaps the player's
  rectangle after the move; the flag the frame started with is overwritten. A frame
  that the void check ends has no vertical pass and leaves the flag as the jump step
  left it.
\<close>

theorem grounded_iff_floor_contact:
  "(vec_y (pos (player g)) + vec_y (vel (applyPhysics keys (player g))) \<le> height level + 100 \<longrightarrow>
      (isGrounded (player (update level PLAYING keys g))
         \<longleftrightarrow> frameFloorContacts level PLAYING keys g \<noteq> []) \<and>
      (frameFloorContacts level PLAYING keys g \<noteq> [] \<longleftrightarrow>
         vec_y (vel (player (movePhase level keys g))) > 0 \<and>
         (\<exists>e \<in> set (entities (movePhase level keys g)).
            collidable e \<and> ent_type e = WALL \<and>
            checkCollision (playerRect (player (movePhase level keys g))) e))) \<and>
   (vec_y (pos (player g)) + vec_y (vel (applyPhysics keys (player g))) > height level + 100 \<longrightarrow>
      frameFloorContacts level PLAYING keys g = [] \<and>
      isGrounded (player (update level PLAYING keys g))
        = (isGrounded (player g) \<and> \<not> key_jump keys))"
proof -
  let ?sum = "vec_y (pos (player g)) + vec_y (vel (applyPhysics keys (player g)))"
  let ?g4 = "movePhase level keys g"
  have y: "vec_y (pos (player ?g4)) = ?sum"
    by (rule movePhase_y)
  show ?thesis
  proof (cases "vec_y (pos (player ?g4)) > height level + 100")
    case True
    have n: "\<not> ?sum \<le> height level + 100"
      using True y by simp
    have c: "frameFloorContacts level PLAYING keys g = []"
      using True by (simp add: frameFloorContacts_def Let_def)
    have "isGrounded (applyPhysics keys (player g)) = (isGrounded (player g) \<and> \<not> key_jump keys)"
      by (auto simp: applyPhysics_def Let_def)
    then have i: "isGrounded (player (update level PLAYING keys g))
                    = (isGrounded (player g) \<and> \<not> key_jump keys)"
      using update_void [OF True] by (simp add: movePhase_isGrounded)
    show ?thesis using n c i by blast
  next
    case False
    have n: "\<not> ?sum > height level + 100"
      using False y by simp
    have a: "isGrounded (player (update level PLAYING keys g))
               \<longleftrightarrow> frameFloorContacts level PLAYING keys g \<noteq> []"
      using False update_isGrounded_no_void [OF False]
      by (simp add: resolvePhase_def verticalPass_isGrounded frameFloorContacts_def Let_def)
    have "frameFloorContacts level PLAYING keys g
            = floorContacts (playerRect (player ?g4)) (entities ?g4) (player ?g4)"
      using False by (simp add: frameFloorContacts_def Let_def)
    then have b: "frameFloorContacts level PLAYING keys g \<noteq> [] \<longleftrightarrow>
         vec_y (vel (player ?g4)) > 0 \<and>
         (\<exists>e \<in> set (entities ?g4).
            collidable e \<and> ent_type e = WALL \<and> checkCollision (playerRect (player ?g4)) e)"
      by (simp only: floorContacts_iff)
    show ?thesis using n a b by blast
  qed
qed

text \<open>The theorem on the first frame of the ledge level, which lands on the ledge.\<close>

theorem grounded_iff_floor_contact_witness:
  "vec_y (pos (player (loadLevel ledgeLevel)))
     + vec_y (vel (applyPhysics noKeys (player (loadLevel ledgeLevel)))) \<le> height ledgeLevel + 100 \<and>
   isGrounded (player (update ledgeLevel PLAYING noKeys (loadLevel ledgeLevel))) \<and>
   frameFloorContacts ledgeLevel PLAYING noKeys (loadLevel ledgeLevel) \<noteq> []"
proof -
  have h: "vec_y (pos (player (loadLevel ledgeLevel)))
     + vec_y (vel (applyPhysics noKeys (player (loadLevel ledgeLevel)))) \<le> height ledgeLevel + 100"
    by (simp add: loadLevel_def ledgeLevel_def noKeys_def applyPhysics_def Let_def consts_defs)
  have i: "isGrounded (player (update ledgeLevel PLAYING noKeys (loadLevel ledgeLevel)))"
    by (simp add: ledge_frame1)
  show ?thesis
    using h i grounded_iff_floor_contact [of "loadLevel ledgeLevel" noKeys ledgeLevel]
    by blast
qed

subsection \<open>The horizontal pass\<close>

lemma runFrames_append:
  "runFrames level (fs @ fs') g = runFrames level fs' (runFrames level fs g)"
  by (induction level fs g rule: runFrames.induct) simp_all

lemma press_start:
  "runFrames level8Data (replicate 13 (PLAYING, noKeys)) (loadLevel level8Data) = pressState 13"
  by (simp add: eval_nat_numeral frame_defs level8Data_def level8_def noKeys_def pressState_def)

lemma press_step:
  assumes "n \<le> 482"
  shows "update level8Data PLAYING noKeys (pressState n) = pressState (Suc n)"
proof -
  have "real n \<le> 482" using assms by simp
  then show ?thesis
    by (simp add: frame_defs level8Data_def level8_def noKeys_def pressState_def algebra_simps)
qed

lemma press_run:
  "n + k \<le> 483 \<Longrightarrow>
   runFrames level8Data (replicate k (PLAYING, noKeys)) (pressState n) = pressState (n + k)"
proof (induction k arbitrary: n)
  case 0
  then show ?case by simp
next
  case (Suc k)
  then have "n \<le> 482" by simp
  then show ?case using Suc.IH [of "Suc n"] Suc.prems by (simp add: press_step)
qed

lemma press_483:
  "runFrames level8Data (replicate 483 (PLAYING, noKeys)) (loadLevel level8Data) = pressState 483"
proof -
  have "replicate 483 (PLAYING, noKeys) = replicate 13 (PLAYING, noKeys) @ replicate 470 (PLAYING, noKeys)"
    by (simp add: replicate_add [symmetric])
  then show ?thesis
    using press_run [of 13 470] by (simp add: runFrames_append press_start)
qed

lemma press_last:
  "pos (player (update level8Data PLAYING rightKey (pressState 483))) = \<lparr> vec_x = - 30, vec_y = 450.6 \<rparr>"
  by (simp add: frame_defs level8Data_def level8_def rightKey_def pressState_def)

lemma update_x:
  "vec_x (pos (player (update level PLAYING keys g)))
     = vec_x (pos (player (movePhase level keys g)))"
proof (cases "vec_y (pos (player (movePhase level keys g))) > height level + 100")
  case True
  then show ?thesis
    by (simp add: update_void handleDeath_def Let_def spawnParticles_def playExplosionSound_def
        onDie_def)
next
  case False
  have v: "vec_x (pos (fst (verticalLoop r es pg))) = vec_x (pos (fst pg))" for r es pg
    by (induction r es pg rule: verticalLoop.induct) simp_all
  have r: "vec_x (pos (player (resolvePhase g'))) = vec_x (pos (player g'))" for g'
    using v [of "playerRect (player g')" "entities g'" "(player g', False)"]
    by (cases "verticalLoop (playerRect (player g')) (entities g') (player g', False)")
       (simp add: resolvePhase_def verticalPass_def)
  show ?thesis
  proof (cases "hazardGoalCheck (resolvePhase (movePhase level keys g))")
    case None
    then show ?thesis using update_no_void [OF False] r by simp
  next
    case (Some g6)
    then have "g6 = handleDeath ''Spiked'' (resolvePhase (movePhase level keys g)) \<or>
               g6 = handleDeath ''It was a trap!'' (resolvePhase (movePhase level keys g)) \<or>
               g6 = onWin (resolvePhase (movePhase level keys g))"
      unfolding hazardGoalCheck_def by (rule checkLoop_result)
    then have "vec_x (pos (player g6)) = vec_x (pos (player (resolvePhase (movePhase level keys g))))"
      by (auto simp: handleDeath_def Let_def spawnParticles_def playExplosionSound_def
          onDie_def onWin_def)
    then show ?thesis using update_no_void [OF False] Some r by simp
  qed
qed

lemma press_last_left:
  "pos (player (update level8Data PLAYING leftKey (pressState 483))) = \<lparr> vec_x = 1000, vec_y = 450.6 \<rparr>"
  by (simp add: frame_defs level8Data_def level8_def leftKey_def pressState_def)

text \<open>The clamp of step 3 by itself does establish the bound, in every level at least
  as wide as the player.\<close>

lemma moveX_bounds:
  "PLAYER_SIZE \<le> width level \<Longrightarrow>
   0 \<le> vec_x (pos (moveX level p)) \<and> vec_x (pos (moveX level p)) \<le> width level - PLAYER_SIZE"
  by (auto simp: moveX_def Let_def)

lemma movePhase_x:
  "vec_x (pos (player (movePhase level keys g)))
     = vec_x (pos (horizontalPass level
         (entities (updateLevelMechanics (level_id level) (g\<lparr> player := applyPhysics keys (player g) \<rparr>)))
         (applyPhysics keys (player g))))"
  by (simp add: movePhase_def Let_def moveY_def)

text \<open>
  Claim C3: after the horizontal movement-and-collision pass the player's x lies in
  \<open>[0, width - PLAYER_SIZE]\<close>, wherever the collidable walls are. The code clamps x to
  this range after it has applied the velocity, and then resolves the walls without
  clamping again; a resolution against a wall that the player already overlaps puts
  the player at that wall's edge, outside the level. The code evaluated on campaign
  level 8, whose ceiling spans the whole width and comes down 0.6 per frame: after 483
  frames without input the state is \<open>pressState 483\<close>; in frame 484 a step to the right
  is clamped to \<open>x = 85\<close>, within the bound, and then resolved against the ceiling to
  \<open>x = - 30\<close>; a step to the left ends at \<open>x = 1000\<close>, past
  \<open>width - PLAYER_SIZE = 970\<close>.
\<close>

theorem level8_resolution_leaves_level:
  "runFrames level8Data (replicate 483 (PLAYING, noKeys)) (loadLevel level8Data) = pressState 483 \<and>
   vec_x (pos (moveX level8Data (applyPhysics rightKey (player (pressState 483))))) = 85 \<and>
   vec_x (pos (horizontalPass level8Data
       (entities (updateLevelMechanics (level_id level8Data)
          ((pressState 483)\<lparr> player := applyPhysics rightKey (player (pressState 483)) \<rparr>)))
       (applyPhysics rightKey (player (pressState 483))))) = - 30 \<and>
   vec_x (pos (player (runFrames level8Data
       (replicate 483 (PLAYING, noKeys) @ [(PLAYING, rightKey)]) (loadLevel level8Data)))) = - 30 \<and>
   vec_x (pos (player (runFrames level8Data
       (replicate 483 (PLAYING, noKeys) @ [(PLAYING, leftKey)]) (loadLevel level8Data)))) = 1000 \<and>
   width level8Data - PLAYER_SIZE = 970"
proof -
  have a: "vec_x (pos (player (update level8Data PLAYING rightKey (pressState 483)))) = - 30"
    by (simp add: press_last)
  then have b: "vec_x (pos (horizontalPass level8Data
       (entities (updateLevelMechanics (level_id level8Data)
          ((pressState 483)\<lparr> player := applyPhysics rightKey (player (pressState 483)) \<rparr>)))
       (applyPhysics rightKey (player (pressState 483))))) = - 30"
    by (simp only: update_x movePhase_x)
  have c: "vec_x (pos (moveX level8Data (applyPhysics rightKey (player (pressState 483))))) = 85"
    by (simp add: moveX_def applyPhysics_def rightKey_def pressState_def level8Data_def Let_def
        consts_defs)
  have l: "vec_x (pos (player (update level8Data PLAYING leftKey (pressState 483)))) = 1000"
    by (simp add: press_last_left)
  have w: "width level8Data - PLAYER_SIZE = 970"
    by (simp add: level8Data_def consts_defs)
  show ?thesis
    using a b c l w by (simp add: runFrames_append press_483)
qed

subsection \<open>The spike and goal checks\<close>

lemma checkLoop_skip:
  "\<forall>x \<in> set pre. \<not> endsCheck r x \<Longrightarrow> checkLoop r (pre @ es) g = checkLoop r es g"
  by (induction pre) (auto simp: endsCheck_def lethalSpike_def touchedGoal_def skippedGoal_def)

lemma checkLoop_spike:
  assumes "\<forall>x \<in> set pre. \<not> (touchedGoal r x \<and> \<not> skippedGoal x)"
    and "lethalSpike r s"
  shows "checkLoop r (pre @ s # post) g = Some (handleDeath ''Spiked'' g)"
  using assms
  by (induction pre) (auto simp: lethalSpike_def touchedGoal_def skippedGoal_def)

lemma checkLoop_goal:
  assumes "\<forall>x \<in> set pre. \<not> endsCheck r x" and "touchedGoal r e"
  shows "checkLoop r (pre @ e # post) g =
           (if fake (properties e) then Some (handleDeath ''It was a trap!'' g)
            else if ent_id e = ''fake-goal'' then checkLoop r post g
            else Some (onWin g))"
  using assms(2) by (simp add: checkLoop_skip [OF assms(1)] touchedGoal_def)

lemma update_checks:
  assumes "vec_y (pos (player g)) + vec_y (vel (applyPhysics keys (player g))) \<le> height level + 100"
    and "hazardGoalCheck (resolvePhase (movePhase level keys g)) = Some g6"
  shows "update level PLAYING keys g = g6"
proof -
  have "\<not> vec_y (pos (player (movePhase level keys g))) > height level + 100"
    using assms(1) by (simp add: movePhase_y)
  then show ?thesis using assms(2) by (simp add: update_no_void)
qed

lemma trick_frames6:
  "runFrames trickLevel (replicate 6 (PLAYING, noKeys)) (loadLevel trickLevel) =
     \<lparr> player = \<lparr> pos = \<lparr> vec_x = 200, vec_y = 172.6 \<rparr>, vel = \<lparr> vec_x = 0, vec_y = 3.6 \<rparr>,
                  isGrounded = False, dead = False, faceRight = True \<rparr>,
       entities = level_entities trickLevel, frameCount = 6, particleBursts = [],
       explosionSounds = 0, onDie_calls = [], onWin_calls = 0 \<rparr>"
  by (simp add: eval_nat_numeral frame_defs trickLevel_def noKeys_def)

lemma trick_frame7_checks:
  "resolvePhase (movePhase trickLevel leftKey
     (runFrames trickLevel (replicate 6 (PLAYING, noKeys)) (loadLevel trickLevel))) =
     \<lparr> player = \<lparr> pos = \<lparr> vec_x = 195, vec_y = 176.8 \<rparr>, vel = \<lparr> vec_x = - 5, vec_y = 4.2 \<rparr>,
                  isGrounded = False, dead = False, faceRight = False \<rparr>,
       entities = level_entities trickLevel, frameCount = 6, particleBursts = [],
       explosionSounds = 0, onDie_calls = [], onWin_calls = 0 \<rparr>"
  unfolding trick_frames6
  by (simp add: frame_defs trickLevel_def leftKey_def)

lemma spikeFirst_frames6:
  "runFrames spikeFirstLevel (replicate 6 (PLAYING, noKeys)) (loadLevel spikeFirstLevel) =
     \<lparr> player = \<lparr> pos = \<lparr> vec_x = 200, vec_y = 172.6 \<rparr>, vel = \<lparr> vec_x = 0, vec_y = 3.6 \<rparr>,
                  isGrounded = False, dead = False, faceRight = True \<rparr>,
       entities = level_entities spikeFirstLevel, frameCount = 6, particleBursts = [],
       explosionSounds = 0, onDie_calls = [], onWin_calls = 0 \<rparr>"
  by (simp add: eval_nat_numeral frame_defs spikeFirstLevel_def trickLevel_def noKeys_def)

lemma spikeFirst_frame7_checks:
  "resolvePhase (movePhase spikeFirstLevel leftKey
     (runFrames spikeFirstLevel (replicate 6 (PLAYING, noKeys)) (loadLevel spikeFirstLevel))) =
     \<lparr> player = \<lparr> pos = \<lparr> vec_x = 195, vec_y = 176.8 \<rparr>, vel = \<lparr> vec_x = - 5, vec_y = 4.2 \<rparr>,
                  isGrounded = False, dead = False, faceRight = False \<rparr>,
       entities = [createRect 5 5 1 1 SPIKE ''custom-5-5'', createRect 4 5 1 1 GOAL ''custom-4-5''],
       frameCount = 6, particleBursts = [],
       explosionSounds = 0, onDie_calls = [], onWin_calls = 0 \<rparr>"
  unfolding spikeFirst_frames6
  by (simp add: frame_defs spikeFirstLevel_def trickLevel_def leftKey_def)

text \<open>
  Claim C7, as stated, fails when a goal that the player touches comes before the
  spike in the entity list: the loop of step 5 returns at the first entity that ends
  it. In the trick level the player falls for six frames and steps left in the
  seventh; there the spike tile overlaps the shrunk hitbox, the goal tile, first in
  the list, overlaps the player, and the frame is a win with no death.
\<close>

theorem spike_after_goal_counterexample:
  "lethalSpike
     (playerRect (player (resolvePhase (movePhase trickLevel leftKey
        (runFrames trickLevel (replicate 6 (PLAYING, noKeys)) (loadLevel trickLevel))))))
     (entities (resolvePhase (movePhase trickLevel leftKey
        (runFrames trickLevel (replicate 6 (PLAYING, noKeys)) (loadLevel trickLevel)))) ! 1) \<and>
   onWin_calls (runFrames trickLevel (replicate 6 (PLAYING, noKeys) @ [(PLAYING, leftKey)])
                  (loadLevel trickLevel)) = 1 \<and>
   onDie_calls (runFrames trickLevel (replicate 6 (PLAYING, noKeys) @ [(PLAYING, leftKey)])
                  (loadLevel trickLevel)) = []"
proof -
  let ?g6 = "runFrames trickLevel (replicate 6 (PLAYING, noKeys)) (loadLevel trickLevel)"
  let ?g = "resolvePhase (movePhase trickLevel leftKey ?g6)"
  have s: "lethalSpike (playerRect (player ?g)) (entities ?g ! 1)"
    unfolding trick_frame7_checks
    by (simp add: lethalSpike_def trickLevel_def frame_defs)
  have c: "hazardGoalCheck ?g = Some (onWin ?g)"
    unfolding trick_frame7_checks
    by (simp add: hazardGoalCheck_def trickLevel_def createRect_def noProperties_def playerRect_def
        spikePlayerHitbox_def checkCollision_def consts_defs)
  have nv: "vec_y (pos (player ?g6)) + vec_y (vel (applyPhysics leftKey (player ?g6)))
              \<le> height trickLevel + 100"
    unfolding trick_frames6
    by (simp add: applyPhysics_def leftKey_def Let_def trickLevel_def consts_defs)
  have "update trickLevel PLAYING leftKey ?g6 = onWin ?g"
    using nv c by (rule update_checks)
  then have "runFrames trickLevel (replicate 6 (PLAYING, noKeys) @ [(PLAYING, leftKey)])
               (loadLevel trickLevel) = onWin ?g"
    by (simp add: runFrames_append)
  then show ?thesis
    using s by (simp add: onWin_def trick_frame7_checks)
qed

text \<open>
  Claim C7, amended. The hazard check tests the player's rectangle inset by 6 on every
  side against the SPIKE entities in list order. A SPIKE that overlaps this hitbox
  ends the check with \<^verbatim>\<open>handleDeath("Spiked")\<close>, whatever its visible and collidable
  flags are, unless an entity before it in the list is a GOAL that overlaps the
  player's whole rectangle and ends the check first (the loop steps over a GOAL with
  id \<^verbatim>\<open>fake-goal\<close> and no \<^verbatim>\<open>fake\<close> property). The frame that runs the check
  returns that result, and for a player who was alive it logs the death "Spiked".
\<close>

theorem spike_contact_is_death:
  assumes "entities g = pre @ s # post"
    and "ent_type s = SPIKE"
    and "checkCollision (spikePlayerHitbox (playerRect (player g))) s"
    and "\<forall>x \<in> set pre. \<not> (touchedGoal (playerRect (player g)) x \<and> \<not> skippedGoal x)"
  shows "spikePlayerHitbox (playerRect (player g)) =
           \<lparr> rect_x = vec_x (pos (player g)) + 6, rect_y = vec_y (pos (player g)) + 6,
             rect_w = PLAYER_SIZE - 12, rect_h = PLAYER_SIZE - 12 \<rparr> \<and>
         hazardGoalCheck g = Some (handleDeath ''Spiked'' g) \<and>
         hazardGoalCheck (g\<lparr> entities := pre @ s\<lparr> visible := v, collidable := c \<rparr> # post \<rparr>)
           = Some (handleDeath ''Spiked''
                     (g\<lparr> entities := pre @ s\<lparr> visible := v, collidable := c \<rparr> # post \<rparr>)) \<and>
         (\<not> dead (player g) \<longrightarrow>
            onDie_calls (handleDeath ''Spiked'' g) = onDie_calls g @ [(pos (player g), ''Spiked'')] \<and>
            onWin_calls (handleDeath ''Spiked'' g) = onWin_calls g) \<and>
         (g = resolvePhase (movePhase level keys g0) \<and>
          vec_y (pos (player g0)) + vec_y (vel (applyPhysics keys (player g0))) \<le> height level + 100 \<longrightarrow>
            update level PLAYING keys g0 = handleDeath ''Spiked'' g)"
proof -
  let ?r = "playerRect (player g)"
  have box: "spikePlayerHitbox ?r =
           \<lparr> rect_x = vec_x (pos (player g)) + 6, rect_y = vec_y (pos (player g)) + 6,
             rect_w = PLAYER_SIZE - 12, rect_h = PLAYER_SIZE - 12 \<rparr>"
    by (simp add: spikePlayerHitbox_def playerRect_def)
  have ls: "lethalSpike ?r s"
    using assms(2,3) by (simp add: lethalSpike_def)
  have chk: "hazardGoalCheck g = Some (handleDeath ''Spiked'' g)"
    unfolding hazardGoalCheck_def assms(1) using assms(4) ls by (rule checkLoop_spike)
  have ls': "lethalSpike ?r (s\<lparr> visible := v, collidable := c \<rparr>)"
    using assms(2,3) by (simp add: lethalSpike_def checkCollision_def)
  have chk': "hazardGoalCheck (g\<lparr> entities := pre @ s\<lparr> visible := v, collidable := c \<rparr> # post \<rparr>)
           = Some (handleDeath ''Spiked''
                     (g\<lparr> entities := pre @ s\<lparr> visible := v, collidable := c \<rparr> # post \<rparr>))"
    unfolding hazardGoalCheck_def using checkLoop_spike [OF assms(4) ls'] by simp
  have logs: "\<not> dead (player g) \<longrightarrow>
            onDie_calls (handleDeath ''Spiked'' g) = onDie_calls g @ [(pos (player g), ''Spiked'')] \<and>
            onWin_calls (handleDeath ''Spiked'' g) = onWin_calls g"
    by (simp add: handleDeath_alive)
  have frame: "g = resolvePhase (movePhase level keys g0) \<and>
          vec_y (pos (player g0)) + vec_y (vel (applyPhysics keys (player g0))) \<le> height level + 100 \<longrightarrow>
            update level PLAYING keys g0 = handleDeath ''Spiked'' g"
    using chk update_checks [of g0 keys level "handleDeath ''Spiked'' g"] by blast
  show ?thesis
    using box chk chk' logs frame by blast
qed

text \<open>The theorem on the level with the spike tile first: the seventh frame of the same
  run is a death by the spike.\<close>

theorem spike_contact_is_death_witness:
  "update spikeFirstLevel PLAYING leftKey
     (runFrames spikeFirstLevel (replicate 6 (PLAYING, noKeys)) (loadLevel spikeFirstLevel))
   = handleDeath ''Spiked''
       (resolvePhase (movePhase spikeFirstLevel leftKey
          (runFrames spikeFirstLevel (replicate 6 (PLAYING, noKeys)) (loadLevel spikeFirstLevel)))) \<and>
   onDie_calls (handleDeath ''Spiked''
       (resolvePhase (movePhase spikeFirstLevel leftKey
          (runFrames spikeFirstLevel (replicate 6 (PLAYING, noKeys)) (loadLevel spikeFirstLevel)))))
   = [(\<lparr> vec_x = 195, vec_y = 176.8 \<rparr>, ''Spiked'')]"
proof -
  let ?g6 = "runFrames spikeFirstLevel (replicate 6 (PLAYING, noKeys)) (loadLevel spikeFirstLevel)"
  let ?g = "resolvePhase (movePhase spikeFirstLevel leftKey ?g6)"
  have e: "entities ?g = [] @ createRect 5 5 1 1 SPIKE ''custom-5-5''
                            # [createRect 4 5 1 1 GOAL ''custom-4-5'']"
    by (simp add: spikeFirst_frame7_checks)
  have t: "ent_type (createRect 5 5 1 1 SPIKE ''custom-5-5'') = SPIKE"
    by (simp add: createRect_def)
  have o: "checkCollision (spikePlayerHitbox (playerRect (player ?g)))
             (createRect 5 5 1 1 SPIKE ''custom-5-5'')"
    unfolding spikeFirst_frame7_checks by (simp add: frame_defs)
  have n: "\<forall>x \<in> set []. \<not> (touchedGoal (playerRect (player ?g)) x \<and> \<not> skippedGoal x)"
    by simp
  have nv: "vec_y (pos (player ?g6)) + vec_y (vel (applyPhysics leftKey (player ?g6)))
              \<le> height spikeFirstLevel + 100"
    unfolding spikeFirst_frames6
    by (simp add: applyPhysics_def leftKey_def Let_def spikeFirstLevel_def trickLevel_def consts_defs)
  have a: "\<not> dead (player ?g)" "onDie_calls ?g = []" "pos (player ?g) = \<lparr> vec_x = 195, vec_y = 176.8 \<rparr>"
    by (simp_all add: spikeFirst_frame7_checks)
  show ?thesis
    using spike_contact_is_death [OF e t o n, of True True spikeFirstLevel leftKey ?g6] nv a
    by simp
qed

subsection \<open>Decoy goals\<close>

lemma atFakeGoal_frame:
  "update level10Data PLAYING noKeys atFakeGoal =
     \<lparr> player = \<lparr> pos = \<lparr> vec_x = 700, vec_y = 370 \<rparr>, vel = \<lparr> vec_x = 0, vec_y = 0 \<rparr>,
                  isGrounded = True, dead = False, faceRight = True \<rparr>,
       entities = level10Reveal (level_entities level10Data),
       frameCount = 1, particleBursts = [(720, 320)],
       explosionSounds = 0, onDie_calls = [], onWin_calls = 0 \<rparr>"
  by (simp add: frame_defs atFakeGoal_def level10Data_def level10_def level10Reveal_def
      isStair_def noKeys_def)

text \<open>
  Claim C1, as stated, fails on the decoy it names. The bait goal of level 10 has the id
  \<^verbatim>\<open>fake-goal\<close> and no \<^verbatim>\<open>fake\<close> property; the loop of step 5 steps over it. In a
  frame in which the player stands on the platform and overlaps the bait goal, before
  and after the frame, there is no death and no win.
\<close>

theorem fake_goal_counterexample:
  "ent_id (entities atFakeGoal ! 6) = ''fake-goal'' \<and>
   touchedGoal (playerRect (player atFakeGoal)) (entities atFakeGoal ! 6) \<and>
   touchedGoal (playerRect (player (update level10Data PLAYING noKeys atFakeGoal)))
     (entities (update level10Data PLAYING noKeys atFakeGoal) ! 6) \<and>
   onDie_calls (update level10Data PLAYING noKeys atFakeGoal) = [] \<and>
   \<not> dead (player (update level10Data PLAYING noKeys atFakeGoal)) \<and>
   onWin_calls (update level10Data PLAYING noKeys atFakeGoal) = 0"
  unfolding atFakeGoal_frame
  by (simp add: atFakeGoal_def loadLevel_def level10Data_def level10Reveal_def isStair_def
      forEachWhere_def touchedGoal_def playerRect_def checkCollision_def createRect_def
      consts_defs)

lemma decoy_frames5:
  "runFrames decoyLevel (replicate 5 (PLAYING, noKeys)) (loadLevel decoyLevel) =
     \<lparr> player = \<lparr> pos = \<lparr> vec_x = 160, vec_y = 169 \<rparr>, vel = \<lparr> vec_x = 0, vec_y = 3 \<rparr>,
                  isGrounded = False, dead = False, faceRight = True \<rparr>,
       entities = level_entities decoyLevel, frameCount = 5, particleBursts = [],
       explosionSounds = 0, onDie_calls = [], onWin_calls = 0 \<rparr>"
  by (simp add: eval_nat_numeral frame_defs decoyLevel_def noKeys_def)

lemma decoy_frame6_checks:
  "resolvePhase (movePhase decoyLevel noKeys
     (runFrames decoyLevel (replicate 5 (PLAYING, noKeys)) (loadLevel decoyLevel))) =
     \<lparr> player = \<lparr> pos = \<lparr> vec_x = 160, vec_y = 172.6 \<rparr>, vel = \<lparr> vec_x = 0, vec_y = 3.6 \<rparr>,
                  isGrounded = False, dead = False, faceRight = True \<rparr>,
       entities = level_entities decoyLevel, frameCount = 5, particleBursts = [],
       explosionSounds = 0, onDie_calls = [], onWin_calls = 0 \<rparr>"
  unfolding decoy_frames5
  by (simp add: frame_defs decoyLevel_def noKeys_def)

text \<open>
  Claim C1, amended. When the first entity in list order that ends the hazard and goal
  check is a GOAL that overlaps the player's rectangle: if the goal carries the
  \<^verbatim>\<open>fake\<close> property, the check ends with \<^verbatim>\<open>handleDeath("It was a trap!")\<close> and no
  win (for a player who was alive, the death is logged with that cause); if it does
  not carry the property and its id is not \<^verbatim>\<open>fake-goal\<close>, the check ends with a win
  and no death. A touched GOAL with the id \<^verbatim>\<open>fake-goal\<close> and no \<^verbatim>\<open>fake\<close> property
  (the bait goal of level 10) is neither: the check goes on with the entities after
  it. The frame that runs the check returns its result.
\<close>

theorem goal_contact_outcome:
  assumes "entities g = pre @ e # post"
    and "ent_type e = GOAL"
    and "checkCollision (playerRect (player g)) e"
    and "\<forall>x \<in> set pre. \<not> endsCheck (playerRect (player g)) x"
  shows "(fake (properties e) \<longrightarrow>
            hazardGoalCheck g = Some (handleDeath ''It was a trap!'' g) \<and>
            onWin_calls (handleDeath ''It was a trap!'' g) = onWin_calls g \<and>
            (\<not> dead (player g) \<longrightarrow>
               onDie_calls (handleDeath ''It was a trap!'' g)
                 = onDie_calls g @ [(pos (player g), ''It was a trap!'')])) \<and>
         (\<not> fake (properties e) \<and> ent_id e \<noteq> ''fake-goal'' \<longrightarrow>
            hazardGoalCheck g = Some (onWin g) \<and>
            onWin_calls (onWin g) = Suc (onWin_calls g) \<and>
            onDie_calls (onWin g) = onDie_calls g) \<and>
         (\<not> fake (properties e) \<and> ent_id e = ''fake-goal'' \<longrightarrow>
            hazardGoalCheck g = checkLoop (playerRect (player g)) post g) \<and>
         (g = resolvePhase (movePhase level keys g0) \<and>
          vec_y (pos (player g0)) + vec_y (vel (applyPhysics keys (player g0))) \<le> height level + 100 \<longrightarrow>
            (fake (properties e) \<longrightarrow>
               update level PLAYING keys g0 = handleDeath ''It was a trap!'' g) \<and>
            (\<not> fake (properties e) \<and> ent_id e \<noteq> ''fake-goal'' \<longrightarrow>
               update level PLAYING keys g0 = onWin g))"
proof -
  have t: "touchedGoal (playerRect (player g)) e"
    using assms(2,3) by (simp add: touchedGoal_def)
  have chk: "hazardGoalCheck g =
           (if fake (properties e) then Some (handleDeath ''It was a trap!'' g)
            else if ent_id e = ''fake-goal'' then checkLoop (playerRect (player g)) post g
            else Some (onWin g))"
    unfolding hazardGoalCheck_def assms(1) using assms(4) t by (rule checkLoop_goal)
  have a: "fake (properties e) \<longrightarrow>
            hazardGoalCheck g = Some (handleDeath ''It was a trap!'' g) \<and>
            onWin_calls (handleDeath ''It was a trap!'' g) = onWin_calls g \<and>
            (\<not> dead (player g) \<longrightarrow>
               onDie_calls (handleDeath ''It was a trap!'' g)
                 = onDie_calls g @ [(pos (player g), ''It was a trap!'')])"
    using chk by (cases "dead (player g)") (simp_all add: handleDeath_alive handleDeath_dead)
  have b: "\<not> fake (properties e) \<and> ent_id e \<noteq> ''fake-goal'' \<longrightarrow>
            hazardGoalCheck g = Some (onWin g) \<and>
            onWin_calls (onWin g) = Suc (onWin_calls g) \<and>
            onDie_calls (onWin g) = onDie_calls g"
    using chk by (simp add: onWin_def)
  have c: "\<not> fake (properties e) \<and> ent_id e = ''fake-goal'' \<longrightarrow>
            hazardGoalCheck g = checkLoop (playerRect (player g)) post g"
    using chk by simp
  have d: "g = resolvePhase (movePhase level keys g0) \<and>
          vec_y (pos (player g0)) + vec_y (vel (applyPhysics keys (player g0))) \<le> height level + 100 \<longrightarrow>
            (fake (properties e) \<longrightarrow>
               update level PLAYING keys g0 = handleDeath ''It was a trap!'' g) \<and>
            (\<not> fake (properties e) \<and> ent_id e \<noteq> ''fake-goal'' \<longrightarrow>
               update level PLAYING keys g0 = onWin g)"
    using a b update_checks [of g0 keys level] by blast
  show ?thesis
    using a b c d by blast
qed

text \<open>The theorem on the decoy level: the player falls onto the decoy tile, and the
  sixth frame is the death "It was a trap!".\<close>

theorem goal_contact_outcome_witness:
  "update decoyLevel PLAYING noKeys
     (runFrames decoyLevel (replicate 5 (PLAYING, noKeys)) (loadLevel decoyLevel))
   = handleDeath ''It was a trap!''
       (resolvePhase (movePhase decoyLevel noKeys
          (runFrames decoyLevel (replicate 5 (PLAYING, noKeys)) (loadLevel decoyLevel)))) \<and>
   onDie_calls (handleDeath ''It was a trap!''
       (resolvePhase (movePhase decoyLevel noKeys
          (runFrames decoyLevel (replicate 5 (PLAYING, noKeys)) (loadLevel decoyLevel)))))
   = [(\<lparr> vec_x = 160, vec_y = 172.6 \<rparr>, ''It was a trap!'')] \<and>
   onWin_calls (handleDeath ''It was a trap!''
       (resolvePhase (movePhase decoyLevel noKeys
          (runFrames decoyLevel (replicate 5 (PLAYING, noKeys)) (loadLevel decoyLevel))))) = 0"
proof -
  let ?g5 = "runFrames decoyLevel (replicate 5 (PLAYING, noKeys)) (loadLevel decoyLevel)"
  let ?g = "resolvePhase (movePhase decoyLevel noKeys ?g5)"
  let ?e = "(createRect 4 5 1 1 GOAL ''custom-4-5'')\<lparr> properties := noProperties\<lparr> fake := True \<rparr> \<rparr>"
  have e: "entities ?g = [] @ ?e # []"
    unfolding decoy_frame6_checks by (simp add: decoyLevel_def)
  have t: "ent_type ?e = GOAL"
    by (simp add: createRect_def)
  have o: "checkCollision (playerRect (player ?g)) ?e"
    unfolding decoy_frame6_checks by (simp add: frame_defs)
  have n: "\<forall>x \<in> set []. \<not> endsCheck (playerRect (player ?g)) x"
    by simp
  have f: "fake (properties ?e)"
    by simp
  have nv: "vec_y (pos (player ?g5)) + vec_y (vel (applyPhysics noKeys (player ?g5)))
              \<le> height decoyLevel + 100"
    unfolding decoy_frames5
    by (simp add: applyPhysics_def noKeys_def Let_def decoyLevel_def consts_defs)
  have a: "\<not> dead (player ?g)" "onDie_calls ?g = []" "onWin_calls ?g = 0"
    "pos (player ?g) = \<lparr> vec_x = 160, vec_y = 172.6 \<rparr>"
    by (simp_all add: decoy_frame6_checks)
  show ?thesis
    using goal_contact_outcome [OF e t o n, of decoyLevel noKeys ?g5] f nv a
    by simp
qed

subsection \<open>The reveal chain of level 10\<close>

lemma handleDeath_entities [simp]: "entities (handleDeath cause g) = entities g"
  by (simp add: handleDeath_def Let_def spawnParticles_def playExplosionSound_def onDie_def)

lemma movePhase_entities:
  "entities (movePhase level keys g)
     = entities (updateLevelMechanics (level_id level) (g\<lparr> player := applyPhysics keys (player g) \<rparr>))"
  by (simp add: movePhase_def Let_def)

lemma update_entities:
  "entities (update level status keys g) =
     (if status = PLAYING
      then entities (updateLevelMechanics (level_id level) (g\<lparr> player := applyPhysics keys (player g) \<rparr>))
      else entities g)"
proof (cases "status = PLAYING")
  case False
  then show ?thesis by (simp add: update_def)
next
  case True
  show ?thesis
  proof (cases "vec_y (pos (player (movePhase level keys g))) > height level + 100")
    case void: True
    then show ?thesis using True by (simp add: update_void movePhase_entities)
  next
    case False
    show ?thesis
    proof (cases "hazardGoalCheck (resolvePhase (movePhase level keys g))")
      case None
      then show ?thesis using True update_no_void [OF False] by (simp add: movePhase_entities)
    next
      case (Some g6)
      then have "g6 = handleDeath ''Spiked'' (resolvePhase (movePhase level keys g)) \<or>
                 g6 = handleDeath ''It was a trap!'' (resolvePhase (movePhase level keys g)) \<or>
                 g6 = onWin (resolvePhase (movePhase level keys g))"
        unfolding hazardGoalCheck_def by (rule checkLoop_result)
      then have "entities g6 = entities (movePhase level keys g)"
        by (auto simp: onWin_def)
      then show ?thesis using True Some update_no_void [OF False] by (simp add: movePhase_entities)
    qed
  qed
qed

lemma playerRect_applyPhysics [simp]: "playerRect (applyPhysics keys p) = playerRect p"
  by (simp add: playerRect_def)

lemma level10_hidden_step:
  assumes "entities g = level_entities level10Data"
  shows "entities (updateLevelMechanics 10 g) =
           (if checkCollision (playerRect (player g)) (createRect 18 8 1 2 GOAL ''fake-goal'')
            then level10Reveal (level_entities level10Data)
            else level_entities level10Data)"
  using assms
  by (simp add: updateLevelMechanics_def campaignMechanics_def genericMechanics_def
      forEachWhere_def level10_def level10Data_def createRect_def noProperties_def
      spawnParticles_def Let_def checkCollision_def)

lemma level10_revealed_step:
  assumes "entities g = level10Reveal (level_entities level10Data)"
  shows "updateLevelMechanics 10 g = g"
  using assms
  by (simp add: updateLevelMechanics_def campaignMechanics_def genericMechanics_def
      forEachWhere_def level10_def level10Reveal_def isStair_def level10Data_def createRect_def
      noProperties_def Let_def)

lemma level10_flags_hidden:
  "map (\<lambda>i. flagsOf i (level_entities level10Data)) revealIds =
     [Some (True, True), Some (False, False),
      Some (False, True), Some (False, True), Some (False, True), Some (False, True)]"
  by (simp add: revealIds_def flagsOf_def entityById_def level10Data_def createRect_def)

lemma level10_flags_revealed:
  "map (\<lambda>i. flagsOf i (level10Reveal (level_entities level10Data))) revealIds =
     [Some (False, False), Some (True, True),
      Some (True, True), Some (True, True), Some (True, True), Some (True, True)]"
  by (simp add: revealIds_def flagsOf_def entityById_def level10Data_def level10Reveal_def
      isStair_def forEachWhere_def createRect_def)

lemma level10_one_shot:
  "(case entityById ''fake-goal'' (entities g) of None \<Rightarrow> True | Some f \<Rightarrow> \<not> visible f)
     \<Longrightarrow> level10 g = g"
  by (simp add: level10_def entityById_def split: option.splits)

lemma level10_update_hidden:
  assumes "entities g = level_entities level10Data"
  shows "entities (update level10Data PLAYING keys g) =
           (if checkCollision (playerRect (player g)) (createRect 18 8 1 2 GOAL ''fake-goal'')
            then level10Reveal (level_entities level10Data)
            else level_entities level10Data)"
proof -
  have "level_id level10Data = 10" by (simp add: level10Data_def)
  then show ?thesis
    using level10_hidden_step [of "g\<lparr> player := applyPhysics keys (player g) \<rparr>"] assms
    by (simp add: update_entities)
qed

lemma level10_update_revealed:
  assumes "entities g = level10Reveal (level_entities level10Data)"
  shows "entities (update level10Data status keys g) = level10Reveal (level_entities level10Data)"
proof -
  have "level_id level10Data = 10" by (simp add: level10Data_def)
  then show ?thesis
    using level10_revealed_step [of "g\<lparr> player := applyPhysics keys (player g) \<rparr>"] assms
    by (simp add: update_entities)
qed

lemma level10_run:
  "entities g = level_entities level10Data \<or> entities g = level10Reveal (level_entities level10Data)
   \<Longrightarrow> entities (runFrames level10Data frames g) = level_entities level10Data \<or>
       entities (runFrames level10Data frames g) = level10Reveal (level_entities level10Data)"
proof (induction level10Data frames g rule: runFrames.induct)
  case (1 g)
  then show ?case by simp
next
  case (2 status keys fs g)
  have "entities (update level10Data status keys g) = level_entities level10Data \<or>
        entities (update level10Data status keys g) = level10Reveal (level_entities level10Data)"
  proof (cases "status = PLAYING")
    case False
    then show ?thesis using "2.prems" by (simp add: update_def)
  next
    case True
    then show ?thesis
      using "2.prems" level10_update_hidden [of g keys] level10_update_revealed [of g status keys]
      by auto
  qed
  then show ?case using "2.hyps" by simp
qed

text \<open>
  Claim C2, as stated, fails for the stairs: in the level as loaded, while the decoy is
  still there, the stair \<^verbatim>\<open>s1\<close> (like \<^verbatim>\<open>s2\<close> to \<^verbatim>\<open>s4\<close>) is already collidable;
  the reveal only makes the stairs visible.
\<close>

theorem stairs_collidable_counterexample:
  "ent_id (entities (loadLevel level10Data) ! 6) = ''fake-goal'' \<and>
   visible (entities (loadLevel level10Data) ! 6) \<and>
   ent_id (entities (loadLevel level10Data) ! 8) = ''s1'' \<and>
   collidable (entities (loadLevel level10Data) ! 8)"
  by (simp add: loadLevel_def level10Data_def createRect_def)

text \<open>
  Claim C2, amended. From the load of level 10 on, the entity list is either the loaded
  one or the revealed one, whatever the frames are. In the loaded list the decoy is
  visible and collidable, the real goal is neither visible nor collidable, and the
  stairs \<^verbatim>\<open>s1\<close> to \<^verbatim>\<open>s4\<close> are invisible but collidable. A playing frame on the
  loaded list whose player overlaps the decoy gives the revealed list, in which the
  decoy is invisible and non-collidable, the real goal visible and collidable, and the
  stairs visible (and collidable as before); a frame whose player does not overlap
  the decoy changes nothing. The transition is one-shot: a frame on the revealed list
  leaves it as it is, and the level-10 rule does nothing at all once the decoy is
  invisible.
\<close>

theorem level10_reveal_chain:
  "(entities g = level_entities level10Data \<longrightarrow>
      entities (update level10Data PLAYING keys g) =
        (if checkCollision (playerRect (player g)) (createRect 18 8 1 2 GOAL ''fake-goal'')
         then level10Reveal (level_entities level10Data)
         else level_entities level10Data)) \<and>
   (entities g = level10Reveal (level_entities level10Data) \<longrightarrow>
      entities (update level10Data status keys g) = level10Reveal (level_entities level10Data)) \<and>
   (entities (runFrames level10Data frames (loadLevel level10Data)) = level_entities level10Data \<or>
    entities (runFrames level10Data frames (loadLevel level10Data))
      = level10Reveal (level_entities level10Data)) \<and>
   map (\<lambda>i. flagsOf i (level_entities level10Data)) revealIds =
     [Some (True, True), Some (False, False),
      Some (False, True), Some (False, True), Some (False, True), Some (False, True)] \<and>
   map (\<lambda>i. flagsOf i (level10Reveal (level_entities level10Data))) revealIds =
     [Some (False, False), Some (True, True),
      Some (True, True), Some (True, True), Some (True, True), Some (True, True)] \<and>
   ((case entityById ''fake-goal'' (entities g) of None \<Rightarrow> True | Some f \<Rightarrow> \<not> visible f)
      \<longrightarrow> level10 g = g)"
proof -
  have "entities (loadLevel level10Data) = level_entities level10Data"
    by (simp add: loadLevel_def)
  then have run: "entities (runFrames level10Data frames (loadLevel level10Data))
                    = level_entities level10Data \<or>
                  entities (runFrames level10Data frames (loadLevel level10Data))
                    = level10Reveal (level_entities level10Data)"
    by (intro level10_run) simp
  show ?thesis
    using level10_update_hidden [of g keys] level10_update_revealed [of g status keys] run
      level10_flags_hidden level10_flags_revealed level10_one_shot [of g]
    by blast
qed

text \<open>The theorem on the frame in which the player overlaps the decoy, and on the frame
  after it, in which the player still does.\<close>

theorem level10_reveal_chain_witness:
  "entities atFakeGoal = level_entities level10Data \<and>
   checkCollision (playerRect (player atFakeGoal)) (createRect 18 8 1 2 GOAL ''fake-goal'') \<and>
   entities (update level10Data PLAYING noKeys atFakeGoal)
     = level10Reveal (level_entities level10Data) \<and>
   entities (update level10Data PLAYING noKeys (update level10Data PLAYING noKeys atFakeGoal))
     = level10Reveal (level_entities level10Data)"
proof -
  have e: "entities atFakeGoal = level_entities level10Data"
    by (simp add: atFakeGoal_def loadLevel_def)
  have c: "checkCollision (playerRect (player atFakeGoal)) (createRect 18 8 1 2 GOAL ''fake-goal'')"
    by (simp add: atFakeGoal_def playerRect_def checkCollision_def createRect_def consts_defs)
  have r: "entities (update level10Data PLAYING noKeys atFakeGoal)
             = level10Reveal (level_entities level10Data)"
    using e c level10_reveal_chain [of atFakeGoal noKeys PLAYING "[]"] by simp
  show ?thesis
    using e c r
      level10_reveal_chain [of "update level10Data PLAYING noKeys atFakeGoal" noKeys PLAYING "[]"]
    by blast
qed

subsection \<open>Entities under the mechanics\<close>

lemma entityById_forEachWhere:
  assumes "\<And>e. ent_id (f e) = ent_id e"
  shows "entityById i (forEachWhere P f es)
           = map_option (\<lambda>e. if P e then f e else e) (entityById i es)"
  using assms by (induction es) (auto simp: entityById_def forEachWhere_def)

lemma entityById_updateFirst:
  assumes "\<And>e. ent_id (f e) = ent_id e"
  shows "entityById i (updateFirst (\<lambda>e. ent_id e = j) f es)
           = (if i = j then map_option f (entityById i es) else entityById i es)"
  using assms by (induction es) (auto simp: entityById_def)

lemma countdown_id [simp]: "ent_id (countdown t) = ent_id t"
  by (simp add: countdown_def Let_def)

lemma startCountdown_id [simp]: "ent_id (startCountdown t) = ent_id t"
  by (simp add: startCountdown_def)

lemma genericTrap_id [simp]: "ent_id (genericTrap p t) = ent_id t"
  by (simp add: genericTrap_def)

lemma genericFallingSpike_id [simp]: "ent_id (genericFallingSpike p t) = ent_id t"
  by (simp add: genericFallingSpike_def Let_def)

lemma genericTrap_trap [simp]: "trap (properties (genericTrap p t)) = trap (properties t)"
  by (simp add: genericTrap_def countdown_def startCountdown_def Let_def)

lemma genericTrap_fallingStrategy [simp]:
  "fallingStrategy (properties (genericTrap p t)) = fallingStrategy (properties t)"
  by (simp add: genericTrap_def countdown_def startCountdown_def Let_def)

lemma entityById_genericMechanics:
  "entityById i (genericMechanics p es) =
     map_option
       (\<lambda>e. let e1 = (if trap (properties e) then genericTrap p e else e)
            in if fallingStrategy (properties e1) = Some ''proximity''
               then genericFallingSpike p e1 else e1)
       (entityById i es)"
  by (simp add: genericMechanics_def entityById_forEachWhere option.map_comp comp_def Let_def)

lemma entityById_genericMechanics_none:
  "entityById i es = Some t \<Longrightarrow> noGenericRule t \<Longrightarrow>
   entityById i (genericMechanics p es) = Some t"
  by (simp add: entityById_genericMechanics noGenericRule_def)

lemma level7Pillar_id [simp]: "ent_id (level7Pillar p t) = ent_id t"
  by (simp add: level7Pillar_def Let_def)

lemma level7Pillar_noGenericRule [simp]: "noGenericRule (level7Pillar p t) = noGenericRule t"
  by (simp add: level7Pillar_def Let_def noGenericRule_def)

lemma updateLevelMechanics_entities:
  "levelId \<noteq> 10 \<Longrightarrow>
   entities (updateLevelMechanics levelId g)
     = campaignMechanics levelId (player g) (genericMechanics (player g) (entities g))"
  by (simp add: updateLevelMechanics_def Let_def)

lemma pillar_frame:
  assumes "level_id level = 7" "entityById ''falling-pillar'' (entities g) = Some t" "noGenericRule t"
  shows "entityById ''falling-pillar'' (entities (update level status keys g))
           = Some (if status = PLAYING then level7Pillar (applyPhysics keys (player g)) t else t)"
  using assms
  by (simp add: update_entities updateLevelMechanics_entities campaignMechanics_def level7_def
      entityById_updateFirst entityById_genericMechanics_none)

subsection \<open>The falling pillar of level 7\<close>

lemma pillar_idle:
  "\<not> triggered (properties t) \<Longrightarrow> vec_x (pos p) \<le> 5 * TILE_SIZE \<Longrightarrow> level7Pillar p t = t"
  by (simp add: level7Pillar_def Let_def)

lemma pillar_fall:
  assumes "triggered (properties t) \<or> vec_x (pos p) > 5 * TILE_SIZE"
  shows "triggered (properties (level7Pillar p t)) \<and>
         lowerEdge (level7Pillar p t) \<le> floorLine \<and>
         (lowerEdge t + (fallSpeed t + 0.8) < floorLine \<longrightarrow>
            fallSpeed (level7Pillar p t) = fallSpeed t + 0.8 \<and>
            fallSpeed (level7Pillar p t) > fallSpeed t \<and>
            rect_y (level7Pillar p t) = rect_y t + fallSpeed (level7Pillar p t)) \<and>
         (lowerEdge t + (fallSpeed t + 0.8) \<ge> floorLine \<longrightarrow>
            lowerEdge (level7Pillar p t) = floorLine \<and>
            prop_vy (properties (level7Pillar p t)) = Some 0)"
  using assms
  by (auto simp: level7Pillar_def Let_def lowerEdge_def floorLine_def fallSpeed_def
      split: option.splits)

lemma pillar_rest:
  assumes "triggered (properties t)" "lowerEdge t = floorLine" "prop_vy (properties t) = Some 0"
  shows "level7Pillar p t = t"
  using assms
  by (simp add: level7Pillar_def Let_def lowerEdge_def floorLine_def)

lemma level7Pillar_h [simp]: "rect_h (level7Pillar p t) = rect_h t"
  by (simp add: level7Pillar_def Let_def)

lemma level7Pillar_applyPhysics [simp]:
  "level7Pillar (applyPhysics keys p) t = level7Pillar p t"
  by (simp add: level7Pillar_def)

lemma pillar_rest_run:
  assumes "level_id level = 7" "noGenericRule t"
    and "triggered (properties t)" "lowerEdge t = floorLine" "prop_vy (properties t) = Some 0"
  shows "entityById ''falling-pillar'' (entities g) = Some t \<Longrightarrow>
         entityById ''falling-pillar'' (entities (runFrames level frames g)) = Some t"
proof (induction frames arbitrary: g)
  case Nil
  then show ?case by simp
next
  case (Cons f fs)
  obtain status keys where f: "f = (status, keys)"
    by (cases f)
  have "entityById ''falling-pillar'' (entities (update level status keys g)) = Some t"
    by (simp add: pillar_frame [OF assms(1) Cons.prems assms(2)] pillar_rest [OF assms(3-5)])
  then show ?case using Cons.IH f by simp
qed

lemma pillar_above_floor_run:
  "\<exists>t. entityById ''falling-pillar'' (entities g) = Some t \<and> noGenericRule t \<and>
       lowerEdge t \<le> floorLine \<Longrightarrow>
   \<exists>t. entityById ''falling-pillar'' (entities (runFrames level7Data frames g)) = Some t \<and>
       noGenericRule t \<and> lowerEdge t \<le> floorLine"
proof (induction level7Data frames g rule: runFrames.induct)
  case (1 g)
  then show ?case by simp
next
  case (2 status keys fs g)
  then obtain t where t: "entityById ''falling-pillar'' (entities g) = Some t" "noGenericRule t"
    "lowerEdge t \<le> floorLine"
    by blast
  have l: "level_id level7Data = 7" by (simp add: level7Data_def)
  let ?t' = "if status = PLAYING then level7Pillar (applyPhysics keys (player g)) t else t"
  have f: "entityById ''falling-pillar'' (entities (update level7Data status keys g)) = Some ?t'"
    using l t(1,2) by (rule pillar_frame)
  have "lowerEdge (level7Pillar (player g) t) \<le> floorLine"
  proof (cases "triggered (properties t) \<or> vec_x (pos (player g)) > 5 * TILE_SIZE")
    case True
    then show ?thesis using pillar_fall [of t "player g"] by blast
  next
    case False
    then show ?thesis using t(3) by (simp add: pillar_idle)
  qed
  then have "noGenericRule ?t' \<and> lowerEdge ?t' \<le> floorLine"
    using t by simp
  then have "\<exists>u. entityById ''falling-pillar'' (entities (update level7Data status keys g)) = Some u \<and>
       noGenericRule u \<and> lowerEdge u \<le> floorLine"
    using f by blast
  then show ?case using "2.hyps" by simp
qed

text \<open>
  Claim C8. In level 7, for a pillar that no generic rule applies to (as in the
  campaign level), one playing frame does the following. While the pillar is
  untriggered and the player's x is at most \<open>5 * TILE_SIZE\<close>, the pillar is unchanged.
  Once it is triggered, or the player's x exceeds the trigger line, it is triggered
  after the frame and its lower edge is at or above the floor line; as long as the
  fall of the frame ends above the floor line, its vertical velocity grows by 0.8
  (so it never decreases) and is added to its position; in the frame in which the
  fall would reach the floor line, the lower edge is put on the line and the velocity
  set to 0. A pillar at rest on the floor line stays as it is through any frames.
  From the load of the campaign level on, the lower edge is never below the floor
  line at a frame boundary.
\<close>

theorem falling_pillar:
  assumes "level_id level = 7"
    and "entityById ''falling-pillar'' (entities g) = Some t"
    and "noGenericRule t"
  shows "\<exists>t'. entityById ''falling-pillar'' (entities (update level PLAYING keys g)) = Some t' \<and>
           noGenericRule t' \<and> rect_h t' = rect_h t \<and>
           (\<not> triggered (properties t) \<and> vec_x (pos (player g)) \<le> 5 * TILE_SIZE \<longrightarrow> t' = t) \<and>
           (triggered (properties t) \<or> vec_x (pos (player g)) > 5 * TILE_SIZE \<longrightarrow>
              triggered (properties t') \<and>
              lowerEdge t' \<le> floorLine \<and>
              (lowerEdge t + (fallSpeed t + 0.8) < floorLine \<longrightarrow>
                 fallSpeed t' = fallSpeed t + 0.8 \<and>
                 fallSpeed t' > fallSpeed t \<and>
                 rect_y t' = rect_y t + fallSpeed t') \<and>
              (lowerEdge t + (fallSpeed t + 0.8) \<ge> floorLine \<longrightarrow>
                 lowerEdge t' = floorLine \<and> prop_vy (properties t') = Some 0)) \<and>
           (triggered (properties t) \<and> lowerEdge t = floorLine \<and> prop_vy (properties t) = Some 0 \<longrightarrow>
              entityById ''falling-pillar'' (entities (runFrames level frames g)) = Some t) \<and>
           (\<exists>u. entityById ''falling-pillar''
                  (entities (runFrames level7Data frames (loadLevel level7Data))) = Some u \<and>
                lowerEdge u \<le> floorLine)"
proof -
  let ?t' = "level7Pillar (player g) t"
  have f: "entityById ''falling-pillar'' (entities (update level PLAYING keys g)) = Some ?t'"
    using pillar_frame [OF assms, of PLAYING keys] by simp
  have n: "noGenericRule ?t' \<and> rect_h ?t' = rect_h t"
    using assms(3) by simp
  have i: "\<not> triggered (properties t) \<and> vec_x (pos (player g)) \<le> 5 * TILE_SIZE \<longrightarrow> ?t' = t"
    by (simp add: pillar_idle)
  have d: "triggered (properties t) \<or> vec_x (pos (player g)) > 5 * TILE_SIZE \<longrightarrow>
              triggered (properties ?t') \<and>
              lowerEdge ?t' \<le> floorLine \<and>
              (lowerEdge t + (fallSpeed t + 0.8) < floorLine \<longrightarrow>
                 fallSpeed ?t' = fallSpeed t + 0.8 \<and>
                 fallSpeed ?t' > fallSpeed t \<and>
                 rect_y ?t' = rect_y t + fallSpeed ?t') \<and>
              (lowerEdge t + (fallSpeed t + 0.8) \<ge> floorLine \<longrightarrow>
                 lowerEdge ?t' = floorLine \<and> prop_vy (properties ?t') = Some 0)"
    using pillar_fall [of t "player g"] by blast
  have r: "triggered (properties t) \<and> lowerEdge t = floorLine \<and> prop_vy (properties t) = Some 0 \<longrightarrow>
              entityById ''falling-pillar'' (entities (runFrames level frames g)) = Some t"
    using pillar_rest_run [OF assms(1,3) _ _ _ assms(2)] by blast
  have "\<exists>t. entityById ''falling-pillar'' (entities (loadLevel level7Data)) = Some t \<and>
            noGenericRule t \<and> lowerEdge t \<le> floorLine"
    by (simp add: loadLevel_def level7Data_def entityById_def createRect_def noGenericRule_def
        noProperties_def lowerEdge_def floorLine_def consts_defs)
  then have "\<exists>t. entityById ''falling-pillar''
                  (entities (runFrames level7Data frames (loadLevel level7Data))) = Some t \<and>
                noGenericRule t \<and> lowerEdge t \<le> floorLine"
    by (rule pillar_above_floor_run)
  then have b: "\<exists>u. entityById ''falling-pillar''
                  (entities (runFrames level7Data frames (loadLevel level7Data))) = Some u \<and>
                lowerEdge u \<le> floorLine"
    by blast
  show ?thesis
    using f n i d r b by blast
qed

text \<open>The theorem on the campaign level with the player just past the trigger line: the
  frame triggers the pillar and moves it by its first 0.8.\<close>

theorem falling_pillar_witness:
  "level_id level7Data = 7 \<and>
   entityById ''falling-pillar'' (entities pastTrigger)
     = Some (createRect 10 1 2 4 WALL ''falling-pillar'') \<and>
   noGenericRule (createRect 10 1 2 4 WALL ''falling-pillar'') \<and>
   vec_x (pos (player pastTrigger)) > 5 * TILE_SIZE \<and>
   (\<exists>t'. entityById ''falling-pillar'' (entities (update level7Data PLAYING rightKey pastTrigger))
            = Some t' \<and>
          triggered (properties t') \<and> fallSpeed t' = 0.8 \<and> rect_y t' = 40.8)"
proof -
  let ?t = "createRect 10 1 2 4 WALL ''falling-pillar''"
  have l: "level_id level7Data = 7"
    by (simp add: level7Data_def)
  have e: "entityById ''falling-pillar'' (entities pastTrigger) = Some ?t"
    by (simp add: pastTrigger_def loadLevel_def level7Data_def entityById_def createRect_def)
  have n: "noGenericRule ?t"
    by (simp add: noGenericRule_def createRect_def noProperties_def)
  have x: "vec_x (pos (player pastTrigger)) > 5 * TILE_SIZE"
    by (simp add: pastTrigger_def consts_defs)
  have v: "fallSpeed ?t = 0" "rect_y ?t = 40" "lowerEdge ?t + (fallSpeed ?t + 0.8) < floorLine"
    by (simp_all add: fallSpeed_def lowerEdge_def floorLine_def createRect_def noProperties_def
        consts_defs)
  obtain t' where t':
    "entityById ''falling-pillar'' (entities (update level7Data PLAYING rightKey pastTrigger)) = Some t'"
    "triggered (properties t')" "fallSpeed t' = fallSpeed ?t + 0.8" "rect_y t' = rect_y ?t + fallSpeed t'"
    using falling_pillar [OF l e n, of rightKey "[]"] x v(3) by blast
  have "fallSpeed t' = 0.8 \<and> rect_y t' = 40.8"
    using t'(3,4) v(1,2) by simp
  then show ?thesis
    using l e n x t'(1,2) by blast
qed

subsection \<open>Crumbling traps\<close>

lemma level4Trap_id [simp]: "ent_id (level4Trap p t) = ent_id t"
  by (simp add: level4Trap_def)

lemma trap_frame:
  assumes "crumblingTrap level i t" "entityById i (entities g) = Some t"
  shows "entityById i (entities (update level status keys g))
           = Some (if status = PLAYING
                   then (if level_id level = 4 then level4Trap (applyPhysics keys (player g)) t
                         else genericTrap (applyPhysics keys (player g)) t)
                   else t)"
proof (cases "level_id level = 4")
  case True
  then have "i = ''trap-plat''" "noGenericRule t"
    using assms(1) by (auto simp: crumblingTrap_def customLevel_def)
  then show ?thesis
    using True assms(2)
    by (simp add: update_entities updateLevelMechanics_entities campaignMechanics_def level4_def
        entityById_updateFirst entityById_genericMechanics_none)
next
  case False
  then have c: "customLevel level" "trap (properties t)"
    "fallingStrategy (properties t) \<noteq> Some ''proximity''"
    using assms(1) by (auto simp: crumblingTrap_def)
  then have "level_id level \<noteq> 10" "campaignMechanics (level_id level) = (\<lambda>p es. es)"
    by (auto simp: customLevel_def campaignMechanics_def fun_eq_iff)
  then show ?thesis
    using False c assms(2)
    by (simp add: update_entities updateLevelMechanics_entities entityById_genericMechanics)
qed

lemma trapStep_none:
  "\<not> triggered (properties t) \<Longrightarrow> \<not> (qualifies p t \<and> startable level t) \<Longrightarrow>
   trapStep level p t = t"
  by (auto simp: trapStep_def level4Trap_def genericTrap_def countdown_def qualifies_def
      startable_def)

lemma trapStep_start:
  "\<not> triggered (properties t) \<Longrightarrow> qualifies p t \<Longrightarrow> startable level t \<Longrightarrow>
   trapStep level p t = t\<lparr> properties := (properties t)\<lparr> triggered := True, timer := Some 1 \<rparr> \<rparr>"
  by (auto simp: trapStep_def level4Trap_def genericTrap_def countdown_def startCountdown_def
      qualifies_def startable_def plusOne_def exceeds_def Let_def)

lemma trapStep_tick:
  "triggered (properties t) \<Longrightarrow> timer (properties t) = Some m \<Longrightarrow>
   trapStep level p t = ticked m 1 t"
  by (cases t)
     (auto simp: trapStep_def level4Trap_def genericTrap_def countdown_def startCountdown_def
      plusOne_def exceeds_def Let_def ticked_def)

lemma ticked_0: "timer (properties t) = Some m \<Longrightarrow> ticked m 0 t = t"
  by (cases t) (simp add: ticked_def)

lemma ticked_Suc: "ticked (m + 1) k (ticked m 1 t) = ticked m (Suc k) t"
  by (cases t) (auto simp: ticked_def algebra_simps)

lemma ticked_props [simp]:
  "triggered (properties (ticked m k t)) = triggered (properties t)"
  "timer (properties (ticked m k t)) = Some (m + real k)"
  "trap (properties (ticked m k t)) = trap (properties t)"
  "fallingStrategy (properties (ticked m k t)) = fallingStrategy (properties t)"
  "ent_id (ticked m k t) = ent_id t"
  by (simp_all add: ticked_def)

lemma crumblingTrap_ticked [simp]:
  "crumblingTrap level i (ticked m k t) = crumblingTrap level i t"
  by (simp add: crumblingTrap_def noGenericRule_def)

lemma trap_frame_step:
  assumes "crumblingTrap level i t" "entityById i (entities g) = Some t"
  shows "entityById i (entities (update level PLAYING keys g))
           = Some (trapStep level (applyPhysics keys (player g)) t)"
  using trap_frame [OF assms, of PLAYING keys] by (simp add: trapStep_def)

lemma trap_countdown_run:
  assumes "crumblingTrap level i t"
  shows "triggered (properties t) \<Longrightarrow> timer (properties t) = Some m \<Longrightarrow>
         entityById i (entities g) = Some t \<Longrightarrow>
         entityById i (entities (runFrames level (map (Pair PLAYING) ks) g))
           = Some (ticked m (length ks) t)"
  using assms
proof (induction ks arbitrary: g t m)
  case Nil
  then show ?case by (simp add: ticked_0)
next
  case (Cons k ks)
  have s: "entityById i (entities (update level PLAYING k g)) = Some (ticked m 1 t)"
    using trap_frame_step [OF Cons.prems(4,3), of k] trapStep_tick [OF Cons.prems(1,2)]
    by simp
  have "entityById i (entities (runFrames level (map (Pair PLAYING) ks) (update level PLAYING k g)))
          = Some (ticked (m + 1) (length ks) (ticked m 1 t))"
    using Cons.prems by (intro Cons.IH s) simp_all
  then show ?case using ticked_Suc [of m "length ks" t] by simp
qed

lemma trap_frames6:
  "runFrames trapLevel (replicate 6 (PLAYING, noKeys)) (loadLevel trapLevel) =
     \<lparr> player = \<lparr> pos = \<lparr> vec_x = 200, vec_y = 170 \<rparr>, vel = \<lparr> vec_x = 0, vec_y = 0 \<rparr>,
                  isGrounded = True, dead = False, faceRight = True \<rparr>,
       entities = [trapTile], frameCount = 6, particleBursts = [],
       explosionSounds = 0, onDie_calls = [], onWin_calls = 0 \<rparr>"
  by (simp add: eval_nat_numeral frame_defs trapLevel_def trapTile_def noKeys_def genericTrap_def
      countdown_def)

lemma trap_frame7:
  "update trapLevel PLAYING noKeys
     (runFrames trapLevel (replicate 6 (PLAYING, noKeys)) (loadLevel trapLevel)) =
     \<lparr> player = \<lparr> pos = \<lparr> vec_x = 200, vec_y = 170 \<rparr>, vel = \<lparr> vec_x = 0, vec_y = 0 \<rparr>,
                  isGrounded = True, dead = False, faceRight = True \<rparr>,
       entities = [trapTile\<lparr> properties := (properties trapTile)\<lparr> triggered := True, timer := Some 1 \<rparr> \<rparr>],
       frameCount = 7, particleBursts = [],
       explosionSounds = 0, onDie_calls = [], onWin_calls = 0 \<rparr>"
  unfolding trap_frames6
  by (simp add: frame_defs trapLevel_def trapTile_def noKeys_def genericTrap_def
      countdown_def startCountdown_def trapRect_def plusOne_def exceeds_def)

lemma trapTile_crumbling: "crumblingTrap trapLevel ''custom-5-5'' trapTile"
  by (simp add: crumblingTrap_def customLevel_def trapLevel_def trapTile_def createRect_def
      noProperties_def)

lemma trap_first_contact:
  "qualifies (applyPhysics noKeys
      (player (runFrames trapLevel (replicate 6 (PLAYING, noKeys)) (loadLevel trapLevel)))) trapTile"
  unfolding trap_frames6
  by (simp add: qualifies_def applyPhysics_def noKeys_def Let_def playerRect_def trapRect_def
      checkCollision_def trapTile_def createRect_def consts_defs)

text \<open>
  Claim C4, as stated, fails: the countdown, once started, runs whether or not the
  contact goes on. In the trap level the player lands on the trap tile in frame 6 and
  frame 7 is the first qualifying contact; from frame 8 on the player holds jump and
  right, and frame 8 already is no qualifying contact. After frame 27, twenty frames
  after the first contact, the trap is invisible and non-collidable.
\<close>

theorem trap_without_contact_counterexample:
  "flagsOf ''custom-5-5''
     (entities (runFrames trapLevel (replicate 6 (PLAYING, noKeys)) (loadLevel trapLevel)))
     = Some (True, True) \<and>
   qualifies (applyPhysics noKeys
      (player (runFrames trapLevel (replicate 6 (PLAYING, noKeys)) (loadLevel trapLevel)))) trapTile \<and>
   \<not> qualifies (applyPhysics jumpRightKey
      (player (runFrames trapLevel (replicate 7 (PLAYING, noKeys)) (loadLevel trapLevel)))) trapTile \<and>
   flagsOf ''custom-5-5''
     (entities (runFrames trapLevel
        (replicate 7 (PLAYING, noKeys) @ replicate 20 (PLAYING, jumpRightKey)) (loadLevel trapLevel)))
     = Some (False, False)"
proof -
  let ?g6 = "runFrames trapLevel (replicate 6 (PLAYING, noKeys)) (loadLevel trapLevel)"
  let ?g7 = "runFrames trapLevel (replicate 7 (PLAYING, noKeys)) (loadLevel trapLevel)"
  let ?t7 = "trapTile\<lparr> properties := (properties trapTile)\<lparr> triggered := True, timer := Some 1 \<rparr> \<rparr>"
  have "replicate 7 (PLAYING, noKeys) = replicate 6 (PLAYING, noKeys) @ [(PLAYING, noKeys)]"
    by (simp add: eval_nat_numeral replicate_append_same)
  then have g7: "?g7 = update trapLevel PLAYING noKeys ?g6"
    by (simp add: runFrames_append)
  have a: "flagsOf ''custom-5-5'' (entities ?g6) = Some (True, True)"
    unfolding trap_frames6
    by (simp add: flagsOf_def entityById_def trapTile_def createRect_def)
  have c: "\<not> qualifies (applyPhysics jumpRightKey (player ?g7)) trapTile"
    unfolding g7 trap_frame7
    by (simp add: qualifies_def applyPhysics_def jumpRightKey_def Let_def)
  have e: "entityById ''custom-5-5'' (entities ?g7) = Some ?t7"
    unfolding g7 trap_frame7
    by (simp add: entityById_def trapTile_def createRect_def)
  have ct: "crumblingTrap trapLevel ''custom-5-5'' ?t7"
    using trapTile_crumbling by (simp add: crumblingTrap_def noGenericRule_def)
  have "entityById ''custom-5-5''
          (entities (runFrames trapLevel (map (Pair PLAYING) (replicate 20 jumpRightKey)) ?g7))
          = Some (ticked 1 (length (replicate 20 jumpRightKey)) ?t7)"
    using ct _ _ e by (rule trap_countdown_run) simp_all
  then have d: "flagsOf ''custom-5-5''
     (entities (runFrames trapLevel
        (replicate 7 (PLAYING, noKeys) @ replicate 20 (PLAYING, jumpRightKey)) (loadLevel trapLevel)))
     = Some (False, False)"
    by (simp add: runFrames_append flagsOf_def ticked_def)
  show ?thesis
    using a trap_first_contact c d by blast
qed

lemma trapStep_crumbling [simp]:
  "crumblingTrap level i (trapStep level p t) = crumblingTrap level i t"
  by (simp add: crumblingTrap_def noGenericRule_def trapStep_def level4Trap_def genericTrap_def
      countdown_def startCountdown_def Let_def)

lemma trap_after_contact:
  assumes "crumblingTrap level i t" "entityById i (entities g) = Some t"
    and "\<not> triggered (properties t)" "qualifies (applyPhysics keys (player g)) t"
    and "startable level t" "visible t" "collidable t"
  shows "flagsOf i (entities (runFrames level (map (Pair PLAYING) (keys # ks)) g))
           = Some (length ks < 20, length ks < 20)"
proof -
  let ?t1 = "t\<lparr> properties := (properties t)\<lparr> triggered := True, timer := Some 1 \<rparr> \<rparr>"
  have s: "entityById i (entities (update level PLAYING keys g)) = Some ?t1"
    using trap_frame_step [OF assms(1,2), of keys] trapStep_start [OF assms(3,4,5)]
    by simp
  have c: "crumblingTrap level i ?t1"
    using assms(1) by (simp add: crumblingTrap_def noGenericRule_def)
  have "entityById i (entities (runFrames level (map (Pair PLAYING) ks) (update level PLAYING keys g)))
          = Some (ticked 1 (length ks) ?t1)"
    using c _ _ s by (rule trap_countdown_run) simp_all
  moreover have "(length ks = 0 \<or> 1 + real (length ks) \<le> 20) = (length ks < 20)"
    by auto
  ultimately show ?thesis
    using assms(6,7) by (simp add: flagsOf_def ticked_def)
qed

text \<open>
  Claim C4, amended. For a crumbling trap (an entity with the \<^verbatim>\<open>trap\<close> property in a
  level without campaign rule, or \<^verbatim>\<open>trap-plat\<close> in level 4), a playing frame leaves
  the trap unchanged while the countdown has not started and the frame is no
  qualifying contact; the first qualifying contact (player grounded and overlapping
  the enlarged trigger region; for the generic rule the trap must be visible and
  collidable) starts the countdown at 1 and leaves the trap solid. A started countdown
  advances by one in every playing frame, whether or not the contact goes on, and the
  trap is invisible and non-collidable as soon as the countdown exceeds 20: a trap
  that was solid at the first contact frame is still solid after each of the next 19
  frames and is gone after the 20th and after every later frame.
\<close>

theorem crumbling_trap:
  assumes "crumblingTrap level i t"
    and "entityById i (entities g) = Some t"
  shows "\<exists>t'. entityById i (entities (update level PLAYING keys g)) = Some t' \<and>
           crumblingTrap level i t' \<and>
           (\<not> triggered (properties t) \<and>
            \<not> (qualifies (applyPhysics keys (player g)) t \<and> startable level t) \<longrightarrow> t' = t) \<and>
           (\<not> triggered (properties t) \<and>
            qualifies (applyPhysics keys (player g)) t \<and> startable level t \<longrightarrow>
              t' = t\<lparr> properties := (properties t)\<lparr> triggered := True, timer := Some 1 \<rparr> \<rparr>) \<and>
           (\<not> triggered (properties t) \<and>
            qualifies (applyPhysics keys (player g)) t \<and> startable level t \<and>
            visible t \<and> collidable t \<longrightarrow>
              flagsOf i (entities (runFrames level (map (Pair PLAYING) (keys # ks)) g))
                = Some (length ks < 20, length ks < 20)) \<and>
           (triggered (properties t) \<and> timer (properties t) = Some m \<longrightarrow>
              entityById i (entities (runFrames level (map (Pair PLAYING) ks) g))
                = Some (ticked m (length ks) t))"
proof -
  let ?p = "applyPhysics keys (player g)"
  let ?t' = "trapStep level ?p t"
  have f: "entityById i (entities (update level PLAYING keys g)) = Some ?t'"
    using assms by (rule trap_frame_step)
  have c: "crumblingTrap level i ?t'"
    using assms(1) by simp
  have n: "\<not> triggered (properties t) \<and> \<not> (qualifies ?p t \<and> startable level t) \<longrightarrow> ?t' = t"
    using trapStep_none [of t ?p level] by blast
  have s: "\<not> triggered (properties t) \<and> qualifies ?p t \<and> startable level t \<longrightarrow>
             ?t' = t\<lparr> properties := (properties t)\<lparr> triggered := True, timer := Some 1 \<rparr> \<rparr>"
    using trapStep_start [of t ?p level] by blast
  have a: "\<not> triggered (properties t) \<and> qualifies ?p t \<and> startable level t \<and>
            visible t \<and> collidable t \<longrightarrow>
              flagsOf i (entities (runFrames level (map (Pair PLAYING) (keys # ks)) g))
                = Some (length ks < 20, length ks < 20)"
    using trap_after_contact [OF assms, of keys ks] by blast
  have r: "triggered (properties t) \<and> timer (properties t) = Some m \<longrightarrow>
              entityById i (entities (runFrames level (map (Pair PLAYING) ks) g))
                = Some (ticked m (length ks) t)"
    using trap_countdown_run [OF assms(1) _ _ assms(2), of m ks] by blast
  show ?thesis
    using f c n s a r by blast
qed

text \<open>The theorem on the trap level, at the state in which the player has landed on the
  trap tile: the next frame is the first contact, and whatever the player does then
  (here, jump to the right), the tile is solid 19 frames later and gone 20 frames
  later.\<close>

theorem crumbling_trap_witness:
  "crumblingTrap trapLevel ''custom-5-5'' trapTile \<and>
   entityById ''custom-5-5''
     (entities (runFrames trapLevel (replicate 6 (PLAYING, noKeys)) (loadLevel trapLevel)))
     = Some trapTile \<and>
   flagsOf ''custom-5-5''
     (entities (runFrames trapLevel (map (Pair PLAYING) (noKeys # replicate 19 jumpRightKey))
        (runFrames trapLevel (replicate 6 (PLAYING, noKeys)) (loadLevel trapLevel))))
     = Some (True, True) \<and>
   flagsOf ''custom-5-5''
     (entities (runFrames trapLevel (map (Pair PLAYING) (noKeys # replicate 20 jumpRightKey))
        (runFrames trapLevel (replicate 6 (PLAYING, noKeys)) (loadLevel trapLevel))))
     = Some (False, False)"
proof -
  let ?g6 = "runFrames trapLevel (replicate 6 (PLAYING, noKeys)) (loadLevel trapLevel)"
  have e: "entityById ''custom-5-5'' (entities ?g6) = Some trapTile"
    unfolding trap_frames6 by (simp add: entityById_def trapTile_def createRect_def)
  have h: "\<not> triggered (properties trapTile)" "startable trapLevel trapTile"
    "visible trapTile" "collidable trapTile"
    by (simp_all add: trapTile_def createRect_def noProperties_def startable_def)
  have a: "flagsOf ''custom-5-5''
     (entities (runFrames trapLevel (map (Pair PLAYING) (noKeys # replicate 19 jumpRightKey)) ?g6))
     = Some (True, True)"
    using crumbling_trap [OF trapTile_crumbling e, of noKeys "replicate 19 jumpRightKey"]
      h trap_first_contact
    by auto
  have b: "flagsOf ''custom-5-5''
     (entities (runFrames trapLevel (map (Pair PLAYING) (noKeys # replicate 20 jumpRightKey)) ?g6))
     = Some (False, False)"
    using crumbling_trap [OF trapTile_crumbling e, of noKeys "replicate 20 jumpRightKey"]
      h trap_first_contact
    by auto
  show ?thesis
    using trapTile_crumbling e a b by blast
qed

end
